theory Spec2Isabelle
  imports Complex_Main
begin

section \<open>Values of the Python program\<close>

text \<open>
  The exceptions that the functions of \<^verbatim>\<open>bagpy/bagreader.py\<close> can raise, either by a
  \<^verbatim>\<open>raise\<close> statement of their own or through the Python operation they use.
\<close>

datatype error =
    IndexError
  | AttributeError
  | KeyError
  | NameError
  | TypeError
  | OverflowError
  | OSError
  | NotImplementedError string

text \<open>
  A Python \<^verbatim>\<open>float\<close> is an IEEE 754 binary64 number. The finite ones are written as
  the rational number they denote (the sign of zero is not kept).
\<close>

datatype pyfloat = Fin rat | PInf | NInf | NaN

definition pow2 :: "int \<Rightarrow> rat" where
  "pow2 e = (if 0 \<le> e then 2 ^ nat e else 1 / 2 ^ nat (- e))"

function bit_length :: "int \<Rightarrow> int" where
  \<comment> \<open>the number of binary digits of a positive integer\<close>
  "bit_length n = (if n \<le> 0 then 0 else 1 + bit_length (n div 2))"
  by pat_completeness auto
termination
  by (relation "measure nat") auto

declare bit_length.simps [simp del]

definition ilog2 :: "rat \<Rightarrow> int" where
  \<comment> \<open>the integer \<open>e\<close> with \<open>2 ^ e \<le> x < 2 ^ (e + 1)\<close>, for \<open>x > 0\<close>\<close>
  "ilog2 x =
     (if 1 \<le> x then bit_length \<lfloor>x\<rfloor> - 1
      else let k = bit_length \<lfloor>1 / x\<rfloor> - 1
           in if 1 / x = pow2 k then - k else - k - 1)"

definition round_half_even :: "rat \<Rightarrow> int" where
  "round_half_even r =
     (let f = \<lfloor>r\<rfloor>; d = r - of_int f
      in if d < 1 / 2 then f
         else if 1 / 2 < d then f + 1
         else if even f then f else f + 1)"

definition fl :: "rat \<Rightarrow> pyfloat" where
  \<comment> \<open>rounding to the nearest binary64 number, ties to even: 53 significant bits, the
      least quantum \<open>2 ^ -1074\<close>, overflow from \<open>2 ^ 1024\<close> on\<close>
  "fl x =
     (if x = 0 then Fin 0
      else let e = max (ilog2 \<bar>x\<bar> - 52) (- 1074);
               y = of_int (round_half_even (x / pow2 e)) * pow2 e
           in if pow2 1024 \<le> \<bar>y\<bar> then (if 0 < x then PInf else NInf) else Fin y)"

definition int_to_float :: "int \<Rightarrow> error + rat" where
  \<comment> \<open>the conversion of a Python \<^verbatim>\<open>int\<close> operand of a float operation\<close>
  "int_to_float n = (case fl (of_int n) of Fin y \<Rightarrow> Inr y | _ \<Rightarrow> Inl OverflowError)"

definition lit_1e_9 :: rat where
  \<comment> \<open>the literal \<^verbatim>\<open>1e-9\<close>\<close>
  "lit_1e_9 = (case fl (1 / 1000000000) of Fin y \<Rightarrow> y | _ \<Rightarrow> 0)"

text \<open>
  A scalar value, as it stands in a field of a row handed to
  \<^verbatim>\<open>csv.writer.writerow\<close> or in a column of a \<^verbatim>\<open>pandas.DataFrame\<close>: \<^verbatim>\<open>None\<close>, a
  string, an integer, a boolean, a float, or a \<^verbatim>\<open>pandas.Timestamp\<close> (nanoseconds since
  the epoch).
\<close>

datatype cell = Absent | StrV string | IntV int | BoolV bool | FloatV pyfloat | TimestampV int

section \<open>Messages\<close>

text \<open>
  The message classes that the extraction methods read, with the attributes they read.
  Attributes named \<^verbatim>\<open>x\<close>, \<^verbatim>\<open>y\<close>, \<^verbatim>\<open>z\<close>, \<^verbatim>\<open>w\<close>, \<^verbatim>\<open>header\<close>, \<^verbatim>\<open>pose\<close>,
  \<^verbatim>\<open>twist\<close>, \<^verbatim>\<open>linear\<close> and \<^verbatim>\<open>angular\<close> carry the name of their class as a prefix.
\<close>

record rostime =
  secs :: int
  nsecs :: int

record header =
  seq :: int
  stamp :: rostime
  frame_id :: string

record vector3 =
  vector3_x :: pyfloat
  vector3_y :: pyfloat
  vector3_z :: pyfloat

record point =
  point_x :: pyfloat
  point_y :: pyfloat
  point_z :: pyfloat

record quaternion =
  quaternion_x :: pyfloat
  quaternion_y :: pyfloat
  quaternion_z :: pyfloat
  quaternion_w :: pyfloat

record laserscan =
  laserscan_header :: header
  angle_min :: pyfloat
  angle_max :: pyfloat
  angle_increment :: pyfloat
  time_increment :: pyfloat
  scan_time :: pyfloat
  range_min :: pyfloat
  range_max :: pyfloat
  ranges :: "pyfloat list"
  intensities :: "pyfloat list"

record twist =
  twist_linear :: vector3
  twist_angular :: vector3

record pose =
  position :: point
  orientation :: quaternion

record pose_with_covariance =
  pwc_pose :: pose
  pwc_covariance :: "pyfloat list"

record twist_with_covariance =
  twc_twist :: twist
  twc_covariance :: "pyfloat list"

record odometry =
  odometry_header :: header
  child_frame_id :: string
  odometry_pose :: pose_with_covariance
  odometry_twist :: twist_with_covariance

record wrench =
  force :: vector3
  torque :: vector3

text \<open>
  A message of a bag. \<open>StdMsg\<close> is a message of one of the \<^verbatim>\<open>std_msgs\<close> classes with
  the single attribute \<^verbatim>\<open>data\<close>; \<open>OtherMsg\<close> is a message of any other class, on which
  each attribute read below raises \<^verbatim>\<open>AttributeError\<close>.
\<close>

datatype message =
    LaserScanMsg laserscan
  | TwistMsg twist
  | StdMsg cell
  | OdometryMsg odometry
  | WrenchMsg wrench
  | ClockMsg rostime
  | OtherMsg

section \<open>The rows\<close>

definition stamp_seconds :: "rostime \<Rightarrow> error + pyfloat" where
  \<comment> \<open>\<^verbatim>\<open>t.secs + t.nsecs*1e-9\<close>\<close>
  "stamp_seconds t =
     (case int_to_float (nsecs t) of
        Inl e \<Rightarrow> Inl e
      | Inr n \<Rightarrow>
          (case int_to_float (secs t) of
             Inl e \<Rightarrow> Inl e
           | Inr s \<Rightarrow>
               (case fl (n * lit_1e_9) of
                  Fin p \<Rightarrow> Inr (fl (s + p))
                | other \<Rightarrow> Inr other)))"

fun fill_loop :: "cell list \<Rightarrow> nat \<Rightarrow> pyfloat list \<Rightarrow> error + cell list" where
  \<comment> \<open>\<^verbatim>\<open>for ir, ran in enumerate(xs): buf[ir] = ran\<close>\<close>
  "fill_loop buf ir [] = Inr buf"
| "fill_loop buf ir (r # rest) =
     (if ir < length buf then fill_loop (buf[ir := FloatV r]) (Suc ir) rest
      else Inl IndexError)"

definition fill_slots :: "pyfloat list \<Rightarrow> error + cell list" where
  \<comment> \<open>\<^verbatim>\<open>buf = [None]*182\<close>, then the loop\<close>
  "fill_slots xs = fill_loop (replicate 182 Absent) 0 xs"

definition laser_row :: "rostime \<Rightarrow> message \<Rightarrow> error + cell list" where
  "laser_row t msg =
     (case stamp_seconds t of
        Inl e \<Rightarrow> Inl e
      | Inr tm \<Rightarrow>
          (case msg of
             LaserScanMsg m \<Rightarrow>
               (let new_row = [FloatV tm,
                               IntV (seq (laserscan_header m)),
                               StrV (frame_id (laserscan_header m)),
                               FloatV (angle_min m),
                               FloatV (angle_max m),
                               FloatV (angle_increment m),
                               FloatV (time_increment m),
                               FloatV (scan_time m),
                               FloatV (range_min m),
                               FloatV (range_max m)]
                in case fill_slots (ranges m) of
                     Inl e \<Rightarrow> Inl e
                   | Inr rs \<Rightarrow>
                       (case fill_slots (intensities m) of
                          Inl e \<Rightarrow> Inl e
                        | Inr ins \<Rightarrow> Inr ((new_row @ rs) @ ins)))
           | _ \<Rightarrow> Inl AttributeError))"

definition vel_row :: "rostime \<Rightarrow> message \<Rightarrow> error + cell list" where
  "vel_row t msg =
     (case stamp_seconds t of
        Inl e \<Rightarrow> Inl e
      | Inr tm \<Rightarrow>
          (case msg of
             TwistMsg m \<Rightarrow>
               Inr [FloatV tm,
                    FloatV (vector3_x (twist_linear m)),
                    FloatV (vector3_y (twist_linear m)),
                    FloatV (vector3_z (twist_linear m)),
                    FloatV (vector3_x (twist_angular m)),
                    FloatV (vector3_y (twist_angular m)),
                    FloatV (vector3_z (twist_angular m))]
           | _ \<Rightarrow> Inl AttributeError))"

definition std_row :: "rostime \<Rightarrow> message \<Rightarrow> error + cell list" where
  "std_row t msg =
     (case stamp_seconds t of
        Inl e \<Rightarrow> Inl e
      | Inr tm \<Rightarrow>
          (case msg of
             StdMsg d \<Rightarrow> Inr [FloatV tm, d]
           | _ \<Rightarrow> Inl AttributeError))"

definition odometry_row :: "rostime \<Rightarrow> message \<Rightarrow> error + cell list" where
  "odometry_row t msg =
     (case stamp_seconds t of
        Inl e \<Rightarrow> Inl e
      | Inr tm \<Rightarrow>
          (case msg of
             OdometryMsg m \<Rightarrow>
               Inr [FloatV tm,
                    IntV (seq (odometry_header m)),
                    StrV (frame_id (odometry_header m)),
                    StrV (child_frame_id m),
                    FloatV (point_x (position (pwc_pose (odometry_pose m)))),
                    FloatV (point_y (position (pwc_pose (odometry_pose m)))),
                    FloatV (point_z (position (pwc_pose (odometry_pose m)))),
                    FloatV (quaternion_x (orientation (pwc_pose (odometry_pose m)))),
                    FloatV (quaternion_y (orientation (pwc_pose (odometry_pose m)))),
                    FloatV (quaternion_z (orientation (pwc_pose (odometry_pose m)))),
                    FloatV (quaternion_w (orientation (pwc_pose (odometry_pose m)))),
                    FloatV (vector3_x (twist_linear (twc_twist (odometry_twist m)))),
                    FloatV (vector3_y (twist_linear (twc_twist (odometry_twist m)))),
                    FloatV (vector3_z (twist_linear (twc_twist (odometry_twist m))))]
           | _ \<Rightarrow> Inl AttributeError))"

definition wrench_row :: "rostime \<Rightarrow> message \<Rightarrow> error + cell list" where
  "wrench_row t msg =
     (case stamp_seconds t of
        Inl e \<Rightarrow> Inl e
      | Inr tm \<Rightarrow>
          (case msg of
             WrenchMsg m \<Rightarrow>
               Inr [FloatV tm,
                    FloatV (vector3_x (force m)),
                    FloatV (vector3_y (force m)),
                    FloatV (vector3_z (force m)),
                    FloatV (vector3_x (torque m)),
                    FloatV (vector3_y (torque m)),
                    FloatV (vector3_z (torque m))]
           | _ \<Rightarrow> Inl AttributeError))"

definition clock_row :: "rostime \<Rightarrow> message \<Rightarrow> error + cell list" where
  "clock_row t msg =
     (case stamp_seconds t of
        Inl e \<Rightarrow> Inl e
      | Inr tm \<Rightarrow>
          (case msg of
             ClockMsg c \<Rightarrow> Inr [FloatV tm, IntV (secs c), IntV (nsecs c)]
           | _ \<Rightarrow> Inl AttributeError))"

section \<open>The column lists\<close>

definition digits10 :: string where
  "digits10 = ''0123456789''"

fun str_nat :: "nat \<Rightarrow> string" where
  \<comment> \<open>\<^verbatim>\<open>str(p)\<close> of a non-negative integer\<close>
  "str_nat n =
     (if n < 10 then [digits10 ! n] else str_nat (n div 10) @ [digits10 ! (n mod 10)])"

declare str_nat.simps [simp del]

definition laser_columns :: "string list" where
  "laser_columns =
     [''Time'', ''header.seq'', ''header.frame_id'', ''angle_min'', ''angle_max'',
      ''angle_increment'', ''time_increment'', ''scan_time'', ''range_min'', ''range_max'']
     @ map (\<lambda>p. ''ranges_'' @ str_nat p) [0..<182]
     @ map (\<lambda>p. ''intensities_'' @ str_nat p) [0..<182]"

definition vel_columns :: "string list" where
  "vel_columns =
     [''Time'', ''linear.x'', ''linear.y'', ''linear.z'',
      ''angular.x'', ''angular.y'', ''angular.z'']"

definition std_columns :: "string list" where
  "std_columns = [''Time'', ''data'']"

definition odometry_columns :: "string list" where
  "odometry_columns =
     [''Time'', ''header.seq'', ''header.frame_id'', ''child_frame_id'',
      ''pose.x'', ''pose.y'', ''pose.z'',
      ''orientation.x'', ''orientation.y'', ''orientation.z'', ''orientation.w'',
      ''linear.x'', ''linear.y'', ''linear.z'',
      ''angular.x'', ''angular.y'', ''angular.z'']"

definition wrench_columns :: "string list" where
  "wrench_columns =
     [''Time'', ''force.x'', ''force.y'', ''force.z'',
      ''torque.x'', ''torque.y'', ''torque.z'']"

definition clock_columns :: "string list" where
  "clock_columns = [''Time'', ''clock.secs'', ''clock.nsecs'']"

section \<open>The text of a row\<close>









section \<open>The bag and the output folder\<close>

text \<open>
  The attributes of a \<^verbatim>\<open>bagreader\<close> object that the extraction methods read:
  \<^verbatim>\<open>topic_table\<close> (one row per topic, with the columns \<^verbatim>\<open>Topics\<close>, \<^verbatim>\<open>Types\<close>,
  \<^verbatim>\<open>Message Count\<close> and \<^verbatim>\<open>Frequency\<close>), \<^verbatim>\<open>reader\<close> (the messages of the bag with
  their topic and time, in the order in which \<^verbatim>\<open>read_messages\<close> yields them) and
  \<^verbatim>\<open>datafolder\<close>.
\<close>

record topic_row =
  Topics :: string
  Types :: string
  Message_Count :: int
  Frequency :: "pyfloat option"

record bagreader =
  topic_table :: "topic_row list"
  reader :: "(string \<times> message \<times> rostime) list"
  datafolder :: string

definition read_messages ::
  "(string \<times> message \<times> rostime) list \<Rightarrow> string \<Rightarrow> (string \<times> message \<times> rostime) list" where
  \<comment> \<open>\<^verbatim>\<open>self.reader.read_messages(topics=topic, start_time=None, end_time=None)\<close>\<close>
  "read_messages rd topic = filter (\<lambda>(tp, msg, t). tp = topic) rd"

text \<open>
  The files: a file written through \<^verbatim>\<open>csv.writer\<close> is the list of the rows handed to
  \<^verbatim>\<open>writerow\<close>, and \<open>writable\<close> tells whether \<^verbatim>\<open>open(path, "w")\<close> succeeds.
\<close>

type_synonym csvfile = "cell list list"

record filesystem =
  files :: "string \<Rightarrow> csvfile option"
  writable :: "string \<Rightarrow> bool"

definition replace_slash :: "string \<Rightarrow> string" where
  \<comment> \<open>\<^verbatim>\<open>topic.replace("/", "-")\<close>\<close>
  "replace_slash s = map (\<lambda>c. if c = CHR ''/'' then CHR ''-'' else c) s"

definition file_to_write :: "bagreader \<Rightarrow> string \<Rightarrow> string" where
  "file_to_write self topic = datafolder self @ ''/'' @ replace_slash topic @ ''.csv''"

section \<open>The extraction methods\<close>

text \<open>
  The six extraction methods share one body; they differ in the type they look for, in
  their column names and in the row they build from a message. The keyword arguments
  are never read (\<^verbatim>\<open>tstart\<close> and \<^verbatim>\<open>tend\<close> are always \<^verbatim>\<open>None\<close>), and the counter
  \<^verbatim>\<open>k\<close>, \<^verbatim>\<open>message_counts\<close> and the list \<^verbatim>\<open>all_msg\<close> of \<^verbatim>\<open>laser_data\<close> are never used.
\<close>

fun write_rows ::
  "(rostime \<Rightarrow> message \<Rightarrow> error + cell list) \<Rightarrow> csvfile
     \<Rightarrow> (string \<times> message \<times> rostime) list \<Rightarrow> error option \<times> csvfile" where
  \<comment> \<open>the loop over the messages of one topic; an exception leaves the loop, and the
      \<^verbatim>\<open>with\<close> statement closes the file with the rows written so far\<close>
  "write_rows row_of f [] = (None, f)"
| "write_rows row_of f ((topic, msg, t) # rest) =
     (case row_of t msg of
        Inl e \<Rightarrow> (Some e, f)
      | Inr new_row \<Rightarrow> write_rows row_of (f @ [new_row]) rest)"

definition write_topic ::
  "string list \<Rightarrow> (rostime \<Rightarrow> message \<Rightarrow> error + cell list) \<Rightarrow> bagreader
     \<Rightarrow> filesystem \<Rightarrow> string \<Rightarrow> (error + string) \<times> filesystem" where
  \<comment> \<open>one turn of the loop over the topics: open the file, write the header, write the rows\<close>
  "write_topic column_names row_of self fs topic =
     (let path = file_to_write self topic
      in if \<not> writable fs path then (Inl OSError, fs)
         else (case write_rows row_of [map StrV column_names] (read_messages (reader self) topic) of
                 (Some e, f) \<Rightarrow> (Inl e, fs\<lparr>files := (files fs)(path \<mapsto> f)\<rparr>)
               | (None, f) \<Rightarrow> (Inr path, fs\<lparr>files := (files fs)(path \<mapsto> f)\<rparr>)))"

fun write_topics ::
  "string list \<Rightarrow> (rostime \<Rightarrow> message \<Rightarrow> error + cell list) \<Rightarrow> bagreader
     \<Rightarrow> filesystem \<Rightarrow> string list \<Rightarrow> string list \<Rightarrow> (error + string list) \<times> filesystem" where
  \<comment> \<open>\<^verbatim>\<open>for i in range(len(table_rows)): ... csvlist.append(file_to_write)\<close>\<close>
  "write_topics column_names row_of self fs csvlist [] = (Inr csvlist, fs)"
| "write_topics column_names row_of self fs csvlist (topic # rest) =
     (case write_topic column_names row_of self fs topic of
        (Inl e, fs') \<Rightarrow> (Inl e, fs')
      | (Inr path, fs') \<Rightarrow> write_topics column_names row_of self fs' (csvlist @ [path]) rest)"

definition table_rows :: "(string \<Rightarrow> bool) \<Rightarrow> bagreader \<Rightarrow> topic_row list" where
  \<comment> \<open>\<^verbatim>\<open>self.topic_table[self.topic_table['Types']==type_to_look]\<close>, or \<^verbatim>\<open>.isin(type_to_look)\<close>\<close>
  "table_rows type_ok self = filter (\<lambda>r. type_ok (Types r)) (topic_table self)"

definition topics_to_read :: "(string \<Rightarrow> bool) \<Rightarrow> bagreader \<Rightarrow> string list" where
  \<comment> \<open>\<^verbatim>\<open>table_rows['Topics'].values\<close>\<close>
  "topics_to_read type_ok self = map Topics (table_rows type_ok self)"

definition extract_csv ::
  "(string \<Rightarrow> bool) \<Rightarrow> string list \<Rightarrow> (rostime \<Rightarrow> message \<Rightarrow> error + cell list)
     \<Rightarrow> bagreader \<Rightarrow> filesystem \<Rightarrow> (error + string list) \<times> filesystem" where
  "extract_csv type_ok column_names row_of self fs =
     write_topics column_names row_of self fs [] (topics_to_read type_ok self)"

definition laser_data :: "bagreader \<Rightarrow> filesystem \<Rightarrow> (error + string list) \<times> filesystem" where
  "laser_data = extract_csv (\<lambda>ty. ty = ''sensor_msgs/LaserScan'') laser_columns laser_row"

definition vel_data :: "bagreader \<Rightarrow> filesystem \<Rightarrow> (error + string list) \<times> filesystem" where
  "vel_data = extract_csv (\<lambda>ty. ty = ''geometry_msgs/Twist'') vel_columns vel_row"

definition std_type_to_look :: "string list" where
  "std_type_to_look =
     [''std_msgs/Bool'', [CHR 0x27] @ ''std_msgs/Byte'', ''std_msgs/Float32'', ''std_msgs/Float64'',
      ''std_msgs/Int8'', ''std_msgs/Int16'', ''std_msgs/Int32'',
      ''std_msgs/Uint8'', ''std_msgs/Uint16'', ''std_msgs/Uint32'']"

definition std_data :: "bagreader \<Rightarrow> filesystem \<Rightarrow> (error + string list) \<times> filesystem" where
  "std_data = extract_csv (\<lambda>ty. ty \<in> set std_type_to_look) std_columns std_row"

definition odometry_data :: "bagreader \<Rightarrow> filesystem \<Rightarrow> (error + string list) \<times> filesystem" where
  "odometry_data = extract_csv (\<lambda>ty. ty = ''nav_msgs/Odometry'') odometry_columns odometry_row"

definition wrench_data :: "bagreader \<Rightarrow> filesystem \<Rightarrow> (error + string list) \<times> filesystem" where
  "wrench_data = extract_csv (\<lambda>ty. ty = ''geometry_msgs/Wrench'') wrench_columns wrench_row"

definition clock_data :: "bagreader \<Rightarrow> filesystem \<Rightarrow> (error + string list) \<times> filesystem" where
  "clock_data = extract_csv (\<lambda>ty. ty = ''rosgraph_msgs/Clock'') clock_columns clock_row"

subsection \<open>The methods that are not implemented\<close>

type_synonym kwargs = "(string \<times> cell) list"

definition compressed_images ::
  "bagreader \<Rightarrow> kwargs \<Rightarrow> filesystem \<Rightarrow> (error + string list) \<times> filesystem" where
  "compressed_images self kw fs = (Inl (NotImplementedError ''To be implemented''), fs)"

definition pointcloud_data ::
  "bagreader \<Rightarrow> kwargs \<Rightarrow> filesystem \<Rightarrow> (error + string list) \<times> filesystem" where
  "pointcloud_data self kw fs = (Inl (NotImplementedError ''To be implemented''), fs)"

definition animate_laser :: "bagreader \<Rightarrow> filesystem \<Rightarrow> (error + unit) \<times> filesystem" where
  "animate_laser self fs = (Inl (NotImplementedError ''To be implemented''), fs)"

definition animate_pointcloud :: "bagreader \<Rightarrow> filesystem \<Rightarrow> (error + unit) \<times> filesystem" where
  "animate_pointcloud self fs = (Inl (NotImplementedError ''To be implemented''), fs)"

section \<open>The time index\<close>

text \<open>
  A \<^verbatim>\<open>pandas.DataFrame\<close>: its columns in order, each with its name and its values, the
  labels of its rows (the index) and the name of the index. Column names are taken to be
  distinct.
\<close>

record dataframe =
  df_columns :: "(string \<times> cell list) list"
  df_index :: "cell list"
  df_index_name :: "string option"

definition getitem :: "dataframe \<Rightarrow> string \<Rightarrow> error + cell list" where
  \<comment> \<open>\<^verbatim>\<open>df[name]\<close>\<close>
  "getitem d name =
     (case map_of (df_columns d) name of None \<Rightarrow> Inl KeyError | Some col \<Rightarrow> Inr col)"

definition setitem :: "dataframe \<Rightarrow> string \<Rightarrow> cell list \<Rightarrow> dataframe" where
  \<comment> \<open>\<^verbatim>\<open>df[name] = col\<close>, for values that have the index of \<^verbatim>\<open>df\<close>: a column of that
      name is replaced where it stands, a new one is put last\<close>
  "setitem d name col =
     d\<lparr>df_columns :=
         (if map_of (df_columns d) name = None then df_columns d @ [(name, col)]
          else map (\<lambda>(n, c). if n = name then (n, col) else (n, c)) (df_columns d))\<rparr>"

definition set_index :: "dataframe \<Rightarrow> string \<Rightarrow> error + dataframe" where
  \<comment> \<open>what \<^verbatim>\<open>df.set_index(name)\<close> makes of the table\<close>
  "set_index d name =
     (case getitem d name of
        Inl e \<Rightarrow> Inl e
      | Inr col \<Rightarrow>
          Inr (d\<lparr>df_columns := filter (\<lambda>(n, c). n \<noteq> name) (df_columns d),
                 df_index := col, df_index_name := Some name\<rparr>))"

definition drop_column :: "dataframe \<Rightarrow> string \<Rightarrow> error + dataframe" where
  \<comment> \<open>what \<^verbatim>\<open>df.drop([name], axis = 1)\<close> makes of the table\<close>
  "drop_column d name =
     (case getitem d name of
        Inl e \<Rightarrow> Inl e
      | Inr col \<Rightarrow> Inr (d\<lparr>df_columns := filter (\<lambda>(n, c). n \<noteq> name) (df_columns d)\<rparr>))"

text \<open>
  The objects: a store maps the references in use to tables, and \<^verbatim>\<open>df.copy()\<close>, like
  every pandas operation that is not in place, makes a new object.
\<close>

record store =
  objects :: "nat \<Rightarrow> dataframe option"
  next_ref :: nat

definition alloc :: "store \<Rightarrow> dataframe \<Rightarrow> nat \<times> store" where
  "alloc s d = (next_ref s, s\<lparr>objects := (objects s)(next_ref s \<mapsto> d), next_ref := Suc (next_ref s)\<rparr>)"

definition put :: "store \<Rightarrow> nat \<Rightarrow> dataframe \<Rightarrow> store" where
  "put s r d = s\<lparr>objects := (objects s)(r \<mapsto> d)\<rparr>"

text \<open>
  The global names of the module \<^verbatim>\<open>bagreader.py\<close>: those bound by its \<^verbatim>\<open>import\<close>,
  \<^verbatim>\<open>class\<close> and \<^verbatim>\<open>def\<close> statements. None of them, and no built-in name of
  Python, is bound to a function from a scalar to a scalar (\<open>Unary\<close>); reading a name
  that is not bound raises \<^verbatim>\<open>NameError\<close>.
\<close>

datatype pyobject = Unary "cell \<Rightarrow> error + cell" | Other

definition module_globals :: "(string \<times> pyobject) list" where
  "module_globals =
     map (\<lambda>n. (n, Other))
       [''subprocess'', ''yaml'', ''os'', ''time'', ''BytesIO'', ''csv'', ''rosbag'',
        ''String'', ''Header'', ''Twist'', ''Pose'', ''PoseStamped'', ''Path'', ''Odometry'',
        ''Point'', ''LaserScan'', ''np'', ''pd'', ''plt'', ''sea'',
        ''bagreader'', ''find'', ''timeindex'']"

definition load_name :: "(string \<times> pyobject) list \<Rightarrow> string \<Rightarrow> error + pyobject" where
  "load_name g n = (case map_of g n of None \<Rightarrow> Inl NameError | Some obj \<Rightarrow> Inr obj)"

fun map_cells :: "(cell \<Rightarrow> error + cell) \<Rightarrow> cell list \<Rightarrow> error + cell list" where
  \<comment> \<open>a function applied to each value of a column; its first exception ends the call\<close>
  "map_cells f [] = Inr []"
| "map_cells f (v # vs) =
     (case f v of
        Inl e \<Rightarrow> Inl e
      | Inr w \<Rightarrow> (case map_cells f vs of Inl e \<Rightarrow> Inl e | Inr ws \<Rightarrow> Inr (w # ws)))"

definition series_apply :: "pyobject \<Rightarrow> cell list \<Rightarrow> error + cell list" where
  \<comment> \<open>\<^verbatim>\<open>series.apply(obj)\<close>; an object of the other kind fails on the first value\<close>
  "series_apply obj vs =
     (case obj of
        Unary f \<Rightarrow> map_cells f vs
      | Other \<Rightarrow> (if vs = [] then Inr [] else Inl TypeError))"

text \<open>
  \<^verbatim>\<open>timeindex(df, inplace)\<close>, in a module with the global names \<open>g\<close>. The conversion of
  one value by \<^verbatim>\<open>pd.to_datetime(..., unit='s')\<close> is the parameter \<open>to_datetime\<close>. The
  result is the reference returned, or the exception, and the store after the call.
\<close>

definition timeindex_in ::
  "(string \<times> pyobject) list \<Rightarrow> (cell \<Rightarrow> error + cell) \<Rightarrow> store \<Rightarrow> nat \<Rightarrow> bool
     \<Rightarrow> (error + nat) \<times> store" where
  "timeindex_in g to_datetime s df inplace =
     (case objects s df of
        None \<Rightarrow> (Inl TypeError, s)
      | Some d \<Rightarrow>
          (let (newdf, s1) = (if inplace then (df, s) else alloc s d)
           in case getitem d ''Time'' of
                Inl e \<Rightarrow> (Inl e, s1)
              | Inr time_col \<Rightarrow>
                  (let d1 = setitem d ''Time'' time_col;
                       s2 = put s1 newdf d1
                   in case load_name g ''dateparse'' of
                        Inl e \<Rightarrow> (Inl e, s2)
                      | Inr dateparse \<Rightarrow>
                          (case series_apply dateparse time_col of
                             Inl e \<Rightarrow> (Inl e, s2)
                           | Inr clock_time \<Rightarrow>
                               (let d2 = setitem d1 ''ClockTime'' clock_time;
                                    s3 = put s2 newdf d2
                                in case map_cells to_datetime time_col of
                                     Inl e \<Rightarrow> (Inl e, s3)
                                   | Inr clock \<Rightarrow>
                                       (let d3 = setitem d2 ''Clock'' clock;
                                            s4 = put s3 newdf d3
                                        in case set_index d3 ''Clock'' of
                                             Inl e \<Rightarrow> (Inl e, s4)
                                           | Inr d4 \<Rightarrow>
                                               (case drop_column d4 ''ClockTime'' of
                                                  Inl e \<Rightarrow>
                                                    (Inl e, if inplace then put s4 newdf d4
                                                            else snd (alloc s4 d4))
                                                | Inr d5 \<Rightarrow>
                                                    (if inplace then (Inr newdf, put s4 newdf d5)
                                                     else (let (r4, s5) = alloc s4 d4;
                                                               (r5, s6) = alloc s5 d5
                                                           in (Inr r5, s6))))))))))"

definition timeindex ::
  "(cell \<Rightarrow> error + cell) \<Rightarrow> store \<Rightarrow> nat \<Rightarrow> bool \<Rightarrow> (error + nat) \<times> store" where
  \<comment> \<open>the function as the module has it\<close>
  "timeindex = timeindex_in module_globals"

text \<open>
  The table that the statements of \<^verbatim>\<open>timeindex\<close> after line 764 make of a table \<open>d\<close>,
  given its time column, the column of the parsed dates and the column of the timestamps.
\<close>

definition indexed :: "dataframe \<Rightarrow> cell list \<Rightarrow> cell list \<Rightarrow> cell list \<Rightarrow> dataframe" where
  "indexed d col ct clk =
     (let d3 = setitem (setitem (setitem d ''Time'' col) ''ClockTime'' ct) ''Clock'' clk;
          d4 = d3\<lparr>df_columns := filter (\<lambda>(n, c). n \<noteq> ''Clock'') (df_columns d3),
                  df_index := clk, df_index_name := Some ''Clock''\<rparr>
      in d4\<lparr>df_columns := filter (\<lambda>(n, c). n \<noteq> ''ClockTime'') (df_columns d4)\<rparr>)"

section \<open>Example inputs\<close>

definition store_of :: "dataframe \<Rightarrow> store" where
  "store_of d = \<lparr>objects = (\<lambda>r. None)(0 \<mapsto> d), next_ref = 1\<rparr>"

definition empty_table :: dataframe where
  "empty_table =
     \<lparr>df_columns = [(''Time'', []), (''data'', [])], df_index = [], df_index_name = None\<rparr>"

definition sample_table :: dataframe where
  "sample_table =
     \<lparr>df_columns = [(''Time'', [FloatV (Fin 10), FloatV (Fin (21 / 2))]),
                     (''data'', [IntV 1, IntV 2])],
      df_index = [IntV 0, IntV 1], df_index_name = None\<rparr>"



definition empty_folder :: filesystem where
  "empty_folder = \<lparr>files = (\<lambda>p. None), writable = (\<lambda>p. True)\<rparr>"

definition image_bag :: bagreader where
  "image_bag =
     \<lparr>topic_table = [\<lparr>Topics = ''/camera/image_raw'', Types = ''sensor_msgs/Image'',
                       Message_Count = 1, Frequency = None\<rparr>],
      reader = [(''/camera/image_raw'', OtherMsg, \<lparr>secs = 10, nsecs = 0\<rparr>)],
      datafolder = ''run1''\<rparr>"

definition byte_bag :: bagreader where
  "byte_bag =
     \<lparr>topic_table = [\<lparr>Topics = ''/flag'', Types = ''std_msgs/Byte'',
                       Message_Count = 1, Frequency = None\<rparr>,
                     \<lparr>Topics = ''/count'', Types = ''std_msgs/UInt64'',
                       Message_Count = 1, Frequency = None\<rparr>],
      reader = [(''/flag'', StdMsg (IntV 1), \<lparr>secs = 10, nsecs = 0\<rparr>),
                (''/count'', StdMsg (IntV 7), \<lparr>secs = 11, nsecs = 0\<rparr>)],
      datafolder = ''run1''\<rparr>"

definition odom_msg :: odometry where
  "odom_msg =
     \<lparr>odometry_header = \<lparr>seq = 1, stamp = \<lparr>secs = 10, nsecs = 0\<rparr>, frame_id = ''odom''\<rparr>,
      child_frame_id = ''base_link'',
      odometry_pose =
        \<lparr>pwc_pose = \<lparr>position = \<lparr>point_x = Fin 1, point_y = Fin 2, point_z = Fin 0\<rparr>,
                     orientation = \<lparr>quaternion_x = Fin 0, quaternion_y = Fin 0,
                                    quaternion_z = Fin 0, quaternion_w = Fin 1\<rparr>\<rparr>,
         pwc_covariance = []\<rparr>,
      odometry_twist =
        \<lparr>twc_twist = \<lparr>twist_linear = \<lparr>vector3_x = Fin 1, vector3_y = Fin 0, vector3_z = Fin 0\<rparr>,
                      twist_angular = \<lparr>vector3_x = Fin 0, vector3_y = Fin 0, vector3_z = Fin 3\<rparr>\<rparr>,
         twc_covariance = []\<rparr>\<rparr>"

definition odom_bag :: bagreader where
  "odom_bag =
     \<lparr>topic_table = [\<lparr>Topics = ''/odom'', Types = ''nav_msgs/Odometry'',
                       Message_Count = 1, Frequency = None\<rparr>],
      reader = [(''/odom'', OdometryMsg odom_msg, \<lparr>secs = 10, nsecs = 0\<rparr>)],
      datafolder = ''run1''\<rparr>"


definition short_scan :: laserscan where
  "short_scan =
     \<lparr>laserscan_header = \<lparr>seq = 1, stamp = \<lparr>secs = 10, nsecs = 0\<rparr>, frame_id = ''laser''\<rparr>,
      angle_min = Fin 0, angle_max = Fin 3, angle_increment = Fin 1,
      time_increment = Fin 0, scan_time = Fin 0, range_min = Fin 0, range_max = Fin 30,
      ranges = [Fin 5, Fin 6, Fin 7], intensities = []\<rparr>"

definition shorter_scan :: laserscan where
  "shorter_scan = short_scan\<lparr>ranges := [Fin 8]\<rparr>"


definition two_scan_bag :: bagreader where
  "two_scan_bag =
     \<lparr>topic_table = [\<lparr>Topics = ''/scan'', Types = ''sensor_msgs/LaserScan'',
                       Message_Count = 2, Frequency = None\<rparr>],
      reader = [(''/scan'', LaserScanMsg short_scan, \<lparr>secs = 10, nsecs = 0\<rparr>),
                (''/scan'', LaserScanMsg shorter_scan, \<lparr>secs = 11, nsecs = 0\<rparr>)],
      datafolder = ''run1''\<rparr>"


definition lopsided_scan :: laserscan where
  "lopsided_scan = short_scan\<lparr>intensities := replicate 183 (Fin 1)\<rparr>"

definition lopsided_scan_bag :: bagreader where
  "lopsided_scan_bag =
     \<lparr>topic_table = [\<lparr>Topics = ''/scan'', Types = ''sensor_msgs/LaserScan'',
                       Message_Count = 1, Frequency = None\<rparr>],
      reader = [(''/scan'', LaserScanMsg lopsided_scan, \<lparr>secs = 10, nsecs = 0\<rparr>)],
      datafolder = ''run1''\<rparr>"

definition twist_of :: "rat \<Rightarrow> rat \<Rightarrow> rat \<Rightarrow> rat \<Rightarrow> rat \<Rightarrow> rat \<Rightarrow> twist" where
  "twist_of lx ly lz ax ay az =
     \<lparr>twist_linear = \<lparr>vector3_x = Fin lx, vector3_y = Fin ly, vector3_z = Fin lz\<rparr>,
      twist_angular = \<lparr>vector3_x = Fin ax, vector3_y = Fin ay, vector3_z = Fin az\<rparr>\<rparr>"

definition vel_odom_bag :: bagreader where
  "vel_odom_bag =
     \<lparr>topic_table = [\<lparr>Topics = ''/odom'', Types = ''nav_msgs/Odometry'',
                       Message_Count = 2, Frequency = None\<rparr>,
                     \<lparr>Topics = ''/idle_vel'', Types = ''geometry_msgs/Twist'',
                       Message_Count = 0, Frequency = None\<rparr>,
                     \<lparr>Topics = ''/cmd_vel'', Types = ''geometry_msgs/Twist'',
                       Message_Count = 3, Frequency = None\<rparr>],
      reader =
        [(''/odom'', OdometryMsg odom_msg, \<lparr>secs = 9, nsecs = 0\<rparr>),
         (''/cmd_vel'', TwistMsg (twist_of 1 0 0 0 0 0), \<lparr>secs = 10, nsecs = 0\<rparr>),
         (''/cmd_vel'', TwistMsg (twist_of 2 0 0 0 0 1), \<lparr>secs = 10, nsecs = 500000000\<rparr>),
         (''/odom'', OdometryMsg odom_msg, \<lparr>secs = 10, nsecs = 500000000\<rparr>),
         (''/cmd_vel'', TwistMsg (twist_of 0 0 0 0 0 0), \<lparr>secs = 11, nsecs = 0\<rparr>)],
      datafolder = ''run1''\<rparr>"

definition flag_bag :: bagreader where
  "flag_bag =
     \<lparr>topic_table = [\<lparr>Topics = ''/flag'', Types = ''std_msgs/Byte'',
                       Message_Count = 1, Frequency = None\<rparr>,
                     \<lparr>Topics = ''/ok'', Types = ''std_msgs/Bool'',
                       Message_Count = 1, Frequency = None\<rparr>,
                     \<lparr>Topics = ''/count'', Types = ''std_msgs/UInt8'',
                       Message_Count = 1, Frequency = None\<rparr>],
      reader = [(''/flag'', StdMsg (IntV 1), \<lparr>secs = 10, nsecs = 0\<rparr>),
                (''/ok'', StdMsg (BoolV True), \<lparr>secs = 10, nsecs = 0\<rparr>),
                (''/count'', StdMsg (IntV 7), \<lparr>secs = 11, nsecs = 0\<rparr>)],
      datafolder = ''run1''\<rparr>"

section \<open>Evaluating the float operations\<close>

lemma bit_length_numeral: "bit_length (numeral k) = 1 + bit_length (numeral k div 2)"
  by (subst bit_length.simps) simp

lemma bit_length_0: "bit_length 0 = 0"
  by (simp add: bit_length.simps)

lemma bit_length_1: "bit_length 1 = 1"
  by (simp add: bit_length.simps)

lemma floor_numeral_divide: "\<lfloor>numeral a / numeral b :: rat\<rfloor> = numeral a div numeral b"
  using floor_divide_of_int_eq [of "numeral a" "numeral b", where ?'a = rat] by simp

lemmas float_eval = fl_def ilog2_def pow2_def round_half_even_def Let_def int_to_float_def
  bit_length_numeral bit_length_0 bit_length_1 floor_numeral_divide

lemma lit_1e_9_value: "lit_1e_9 = 4835703278458517 / 4835703278458516698824704"
  by (simp add: lit_1e_9_def float_eval)

lemma stamp_10_0: "stamp_seconds \<lparr>secs = 10, nsecs = 0\<rparr> = Inr (Fin 10)"
  by (simp add: stamp_seconds_def float_eval)

lemma stamp_10_5: "stamp_seconds \<lparr>secs = 10, nsecs = 500000000\<rparr> = Inr (Fin (21 / 2))"
  by (simp add: stamp_seconds_def lit_1e_9_value float_eval)

lemma stamp_11_0: "stamp_seconds \<lparr>secs = 11, nsecs = 0\<rparr> = Inr (Fin 11)"
  by (simp add: stamp_seconds_def float_eval)

section \<open>The float operations round to nearest\<close>

text \<open>
  \<open>ilog2\<close> is the binary exponent of a positive number, \<open>round_half_even\<close> is within
  one half of its argument, and so a finite \<open>fl x\<close> is a multiple of the quantum of \<open>x\<close>
  that is within half a quantum of \<open>x\<close>.
\<close>

lemma bit_length_bounds:
  "1 \<le> n \<Longrightarrow> 1 \<le> bit_length n \<and> 2 ^ nat (bit_length n - 1) \<le> n \<and> n < 2 ^ nat (bit_length n)"
proof (induction n rule: bit_length.induct)
  case (1 n)
  show ?case
  proof (cases "n = 1")
    case True
    then show ?thesis by (simp add: bit_length_1)
  next
    case False
    with "1.prems" have half: "1 \<le> n div 2" and pos: "\<not> n \<le> 0" by simp_all
    define b where "b = bit_length (n div 2)"
    from "1.IH" [OF pos half] have ih: "1 \<le> b" "2 ^ nat (b - 1) \<le> n div 2" "n div 2 < 2 ^ nat b"
      by (simp_all add: b_def)
    have bl: "bit_length n = 1 + b"
      using pos by (subst bit_length.simps) (simp add: b_def)
    have p1: "(2::int) ^ nat b = 2 * 2 ^ nat (b - 1)"
      using ih(1) by (metis Suc_nat_eq_nat_zadd1 add.commute diff_add_cancel diff_ge_0_iff_ge power_Suc)
    have p2: "(2::int) ^ nat (1 + b) = 2 * 2 ^ nat b"
      using ih(1) by (simp add: nat_add_distrib)
    have "2 * (n div 2) \<le> n" "n < 2 * (n div 2) + 2" by simp_all
    with ih p1 p2 show ?thesis
      unfolding bl by simp
  qed
qed

lemma pow2_nonneg: "0 \<le> e \<Longrightarrow> pow2 e = 2 ^ nat e"
  by (simp add: pow2_def)

lemma pow2_minus: "0 \<le> k \<Longrightarrow> pow2 (- k) = 1 / 2 ^ nat k"
  by (simp add: pow2_def)

lemma pow2_plus_one: "pow2 (e + 1) = 2 * pow2 e"
proof -
  consider "0 \<le> e" | "e = - 1" | "e < - 1" by linarith
  then show ?thesis
  proof cases
    case 1
    then show ?thesis by (simp add: pow2_def nat_add_distrib)
  next
    case 2
    then show ?thesis by (simp add: pow2_def)
  next
    case 3
    then have "nat (- e) = Suc (nat (- e - 1))" by simp
    then show ?thesis using 3 by (simp add: pow2_def)
  qed
qed

lemma pow2_pos: "0 < pow2 e"
  by (simp add: pow2_def)

lemma ilog2_bounds:
  assumes "0 < x"
  shows "pow2 (ilog2 x) \<le> x \<and> x < pow2 (ilog2 x + 1)"
proof (cases "1 \<le> x")
  case True
  define n where "n = \<lfloor>x\<rfloor>"
  have n1: "1 \<le> n" using True by (simp add: n_def le_floor_iff)
  from bit_length_bounds [OF n1]
  have b: "1 \<le> bit_length n" "2 ^ nat (bit_length n - 1) \<le> n" "n < 2 ^ nat (bit_length n)"
    by simp_all
  have il: "ilog2 x = bit_length n - 1"
    using True by (simp add: ilog2_def n_def)
  have lo: "pow2 (bit_length n - 1) \<le> x"
  proof -
    have "pow2 (bit_length n - 1) = of_int (2 ^ nat (bit_length n - 1))"
      using b(1) by (simp add: pow2_nonneg)
    also have "\<dots> \<le> of_int n" using b(2) by (simp only: of_int_le_iff)
    also have "\<dots> \<le> x" unfolding n_def by linarith
    finally show ?thesis .
  qed
  have hi: "x < pow2 (bit_length n - 1 + 1)"
  proof -
    have "x < of_int (n + 1)" unfolding n_def of_int_add of_int_1 by linarith
    also have "\<dots> \<le> of_int (2 ^ nat (bit_length n))"
      using b(3) by (simp only: of_int_le_iff)
    also have "\<dots> = pow2 (bit_length n - 1 + 1)"
      using b(1) by (simp add: pow2_nonneg)
    finally show ?thesis .
  qed
  show ?thesis using lo hi il by simp
next
  case False
  define y where "y = 1 / x"
  have y1: "1 < y" using False assms by (simp add: y_def)
  have xy: "x = 1 / y" by (simp add: y_def)
  define n where "n = \<lfloor>y\<rfloor>"
  have n1: "1 \<le> n" using y1 by (simp add: n_def le_floor_iff)
  define k where "k = bit_length n - 1"
  from bit_length_bounds [OF n1]
  have b: "0 \<le> k" "2 ^ nat k \<le> n" "n < 2 ^ nat (k + 1)"
    by (simp_all add: k_def)
  have ylo: "2 ^ nat k \<le> y"
  proof -
    have "(2::rat) ^ nat k = of_int (2 ^ nat k)" by simp
    also have "\<dots> \<le> of_int n" using b(2) by (simp only: of_int_le_iff)
    also have "\<dots> \<le> y" unfolding n_def by linarith
    finally show ?thesis .
  qed
  have yhi: "y < 2 ^ nat (k + 1)"
  proof -
    have "y < of_int (n + 1)" unfolding n_def of_int_add of_int_1 by linarith
    also have "\<dots> \<le> of_int (2 ^ nat (k + 1))"
      using b(3) by (simp only: of_int_le_iff)
    also have "\<dots> = 2 ^ nat (k + 1)" by simp
    finally show ?thesis .
  qed
  have p: "pow2 k = 2 ^ nat k" using b(1) by (simp add: pow2_nonneg)
  show ?thesis
  proof (cases "y = pow2 k")
    case True
    then have il: "ilog2 x = - k"
      using False by (simp add: ilog2_def Let_def y_def n_def k_def)
    have "pow2 (- k) = x"
      using True p b(1) by (simp add: pow2_minus xy)
    moreover have "x < pow2 (- k + 1)"
      unfolding pow2_plus_one [of "- k"] using \<open>pow2 (- k) = x\<close> assms by simp
    ultimately show ?thesis unfolding il by blast
  next
    case ne: False
    then have il: "ilog2 x = - k - 1"
      using False by (simp add: ilog2_def Let_def y_def n_def k_def)
    have m1: "pow2 (- (k + 1)) = 1 / 2 ^ nat (k + 1)"
      using b(1) pow2_minus [of "k + 1"] by simp
    have "1 / 2 ^ nat (k + 1) < 1 / y"
      using yhi y1 by (simp add: frac_less2)
    then have lo: "pow2 (- (k + 1)) \<le> x"
      unfolding m1 xy by simp
    have "2 ^ nat k < y" using ylo ne p by simp
    then have "1 / y < 1 / 2 ^ nat k"
      by (simp add: frac_less2)
    then have "x < pow2 (- k)"
      using b(1) pow2_minus [of k] by (simp add: xy)
    then have hi: "x < pow2 (- (k + 1) + 1)"
      by simp
    have il': "ilog2 x = - (k + 1)" using il by simp
    show ?thesis unfolding il' using lo hi by blast
  qed
qed

lemma round_half_even_near: "\<bar>of_int (round_half_even r) - r\<bar> \<le> 1 / 2"
proof -
  have "of_int \<lfloor>r\<rfloor> \<le> r" "r < of_int \<lfloor>r\<rfloor> + 1" by linarith+
  then show ?thesis
    by (auto simp add: round_half_even_def Let_def)
qed

lemma fl_nearest:
  assumes "x \<noteq> 0" and "fl x = Fin y"
  shows "\<exists>m. y = of_int m * pow2 (max (ilog2 \<bar>x\<bar> - 52) (- 1074))
           \<and> \<bar>y - x\<bar> \<le> pow2 (max (ilog2 \<bar>x\<bar> - 52) (- 1074)) / 2"
proof -
  define e where "e = max (ilog2 \<bar>x\<bar> - 52) (- 1074)"
  define m where "m = round_half_even (x / pow2 e)"
  have y: "y = of_int m * pow2 e"
    using assms by (simp add: fl_def Let_def e_def m_def split: if_splits)
  have "\<bar>of_int m - x / pow2 e\<bar> \<le> 1 / 2"
    unfolding m_def by (rule round_half_even_near)
  then have "\<bar>of_int m - x / pow2 e\<bar> * pow2 e \<le> 1 / 2 * pow2 e"
    using pow2_pos [of e] by (simp only: mult_le_cancel_right) simp
  moreover have "\<bar>of_int m - x / pow2 e\<bar> * pow2 e = \<bar>of_int m * pow2 e - x\<bar>"
  proof -
    have "\<bar>of_int m - x / pow2 e\<bar> * pow2 e = \<bar>(of_int m - x / pow2 e) * pow2 e\<bar>"
      using pow2_pos [of e] by (simp add: abs_mult)
    also have "(of_int m - x / pow2 e) * pow2 e = of_int m * pow2 e - x"
      using pow2_pos [of e] by (simp add: field_simps)
    finally show ?thesis .
  qed
  ultimately have "\<bar>y - x\<bar> \<le> pow2 e / 2" by (simp add: y)
  then show ?thesis using y unfolding e_def by blast
qed

text \<open>
  The time of a message never fails to convert when its seconds and nanoseconds are
  unsigned 32-bit numbers, as the time stamps of a bag are: every rounding stays finite.
\<close>

lemma pow2_powi: "pow2 e = 2 powi e"
  by (simp add: pow2_def power_int_def power_one_over inverse_eq_divide)

lemma pow2_mono: "a \<le> b \<Longrightarrow> pow2 a \<le> pow2 b"
  unfolding pow2_powi by (rule power_int_increasing) simp_all

lemma rounded_near:
  "\<bar>of_int (round_half_even (x / pow2 e)) * pow2 e - x\<bar> \<le> pow2 e / 2"
proof -
  define m where "m = round_half_even (x / pow2 e)"
  have "\<bar>of_int m - x / pow2 e\<bar> \<le> 1 / 2"
    unfolding m_def by (rule round_half_even_near)
  then have "\<bar>of_int m - x / pow2 e\<bar> * pow2 e \<le> 1 / 2 * pow2 e"
    using pow2_pos [of e] by (simp only: mult_le_cancel_right) simp
  moreover have "\<bar>of_int m - x / pow2 e\<bar> * pow2 e = \<bar>of_int m * pow2 e - x\<bar>"
  proof -
    have "\<bar>of_int m - x / pow2 e\<bar> * pow2 e = \<bar>(of_int m - x / pow2 e) * pow2 e\<bar>"
      using pow2_pos [of e] by (simp add: abs_mult)
    also have "(of_int m - x / pow2 e) * pow2 e = of_int m * pow2 e - x"
      using pow2_pos [of e] by (simp add: field_simps)
    finally show ?thesis .
  qed
  ultimately show ?thesis by (simp add: m_def)
qed

lemma quantum_small:
  assumes "x \<noteq> 0"
  shows "pow2 (max (ilog2 \<bar>x\<bar> - 52) (- 1074)) \<le> max \<bar>x\<bar> 1"
proof (cases "- 1074 \<le> ilog2 \<bar>x\<bar> - 52")
  case True
  then have "pow2 (max (ilog2 \<bar>x\<bar> - 52) (- 1074)) = pow2 (ilog2 \<bar>x\<bar> - 52)"
    by (simp only: max_absorb1)
  also have "\<dots> \<le> pow2 (ilog2 \<bar>x\<bar>)" by (rule pow2_mono) simp
  also have "\<dots> \<le> \<bar>x\<bar>" using ilog2_bounds [of "\<bar>x\<bar>"] assms by simp
  finally show ?thesis by simp
next
  case False
  then have "ilog2 \<bar>x\<bar> - 52 \<le> - 1074" by simp
  then have "pow2 (max (ilog2 \<bar>x\<bar> - 52) (- 1074)) = pow2 (- 1074)"
    by (simp only: max_absorb2)
  also have "\<dots> \<le> pow2 0" by (rule pow2_mono) simp
  also have "\<dots> = 1" by (simp add: pow2_def)
  finally show ?thesis by simp
qed

lemma fl_finite:
  assumes "\<bar>x\<bar> \<le> 2 ^ 64"
  shows "\<exists>y. fl x = Fin y \<and> \<bar>y\<bar> \<le> 2 * max \<bar>x\<bar> 1"
proof (cases "x = 0")
  case True
  then show ?thesis by (simp add: fl_def)
next
  case False
  define e where "e = max (ilog2 \<bar>x\<bar> - 52) (- 1074)"
  define y where "y = of_int (round_half_even (x / pow2 e)) * pow2 e"
  have near: "\<bar>y - x\<bar> \<le> pow2 e / 2"
    unfolding y_def by (rule rounded_near)
  have q: "pow2 e \<le> max \<bar>x\<bar> 1"
    unfolding e_def using False by (rule quantum_small)
  have "\<bar>y\<bar> \<le> \<bar>x\<bar> + pow2 e / 2" using near by linarith
  then have bound: "\<bar>y\<bar> \<le> 2 * max \<bar>x\<bar> 1" using q by linarith
  have "max \<bar>x\<bar> 1 \<le> (2::rat) ^ 64" using assms by simp
  then have "\<bar>y\<bar> \<le> 2 * 2 ^ 64" using bound by linarith
  also have "2 * 2 ^ 64 = (2::rat) ^ 65" by simp
  also have "(2::rat) ^ 65 < 2 ^ 1024" by (rule power_strict_increasing) simp_all
  finally have "\<not> pow2 1024 \<le> \<bar>y\<bar>" by (simp add: pow2_def)
  then have "fl x = Fin y"
    using False by (simp add: fl_def Let_def e_def [symmetric] y_def [symmetric])
  then show ?thesis using bound by blast
qed

lemma int_to_float_finite:
  assumes "0 \<le> n" and "n < 2 ^ 32"
  shows "\<exists>y. int_to_float n = Inr y \<and> \<bar>y\<bar> \<le> 2 ^ 33"
proof -
  have small: "\<bar>rat_of_int n\<bar> \<le> 2 ^ 32"
  proof -
    have "rat_of_int n \<le> rat_of_int (2 ^ 32)" using assms(2) by (simp only: of_int_le_iff)
    then show ?thesis using assms(1) by simp
  qed
  then have "\<bar>rat_of_int n\<bar> \<le> 2 ^ 64"
    by (rule order_trans) simp
  from fl_finite [OF this] obtain y where y: "fl (of_int n) = Fin y"
    "\<bar>y\<bar> \<le> 2 * max \<bar>rat_of_int n\<bar> 1" by blast
  have "max \<bar>rat_of_int n\<bar> 1 \<le> 2 ^ 32" using small by simp
  then have "\<bar>y\<bar> \<le> 2 ^ 33" using y(2) by simp
  then show ?thesis using y(1) by (simp add: int_to_float_def)
qed

lemma stamp_seconds_total:
  assumes "0 \<le> secs t" "secs t < 2 ^ 32" "0 \<le> nsecs t" "nsecs t < 2 ^ 32"
  shows "\<exists>tm. stamp_seconds t = Inr (Fin tm)"
proof -
  from int_to_float_finite [OF assms(3,4)] obtain n where
    n: "int_to_float (nsecs t) = Inr n" "\<bar>n\<bar> \<le> 2 ^ 33" by blast
  from int_to_float_finite [OF assms(1,2)] obtain s where
    s: "int_to_float (secs t) = Inr s" "\<bar>s\<bar> \<le> 2 ^ 33" by blast
  have lit: "\<bar>lit_1e_9\<bar> \<le> 1" by (simp add: lit_1e_9_value)
  have "\<bar>n * lit_1e_9\<bar> \<le> 2 ^ 33 * 1"
    unfolding abs_mult using n(2) lit by (intro mult_mono) simp_all
  then have prod: "\<bar>n * lit_1e_9\<bar> \<le> 2 ^ 33" by simp
  then have "\<bar>n * lit_1e_9\<bar> \<le> 2 ^ 64" by (rule order_trans) simp
  from fl_finite [OF this] obtain p where
    p: "fl (n * lit_1e_9) = Fin p" "\<bar>p\<bar> \<le> 2 * max \<bar>n * lit_1e_9\<bar> 1" by blast
  have "max \<bar>n * lit_1e_9\<bar> 1 \<le> 2 ^ 33" using prod by simp
  then have "\<bar>p\<bar> \<le> 2 ^ 34" using p(2) by simp
  then have "\<bar>s + p\<bar> \<le> 2 ^ 33 + 2 ^ 34" using s(2) by linarith
  then have "\<bar>s + p\<bar> \<le> 2 ^ 64" by (rule order_trans) simp
  from fl_finite [OF this] obtain tm where "fl (s + p) = Fin tm" by blast
  then show ?thesis
    using n(1) s(1) p(1) by (simp add: stamp_seconds_def)
qed

section \<open>Topics that are not selected\<close>

lemma extract_csv_no_rows:
  "table_rows type_ok self = [] \<Longrightarrow> extract_csv type_ok cols row_of self fs = (Inr [], fs)"
  by (simp add: extract_csv_def topics_to_read_def)

lemma table_rows_empty:
  "(\<forall>r \<in> set (topic_table self). \<not> type_ok (Types r)) \<Longrightarrow> table_rows type_ok self = []"
  by (simp add: table_rows_def)

text \<open>
  C6. When the topic table has no topic of the type that an extraction method looks for,
  the method returns the empty list of paths: it raises nothing, and the files are as
  they were.
\<close>

theorem no_topic_of_type_returns_empty:
  "((\<forall>r \<in> set (topic_table self). Types r \<noteq> ''sensor_msgs/LaserScan'')
      \<longrightarrow> laser_data self fs = (Inr [], fs))
   \<and> ((\<forall>r \<in> set (topic_table self). Types r \<noteq> ''geometry_msgs/Twist'')
      \<longrightarrow> vel_data self fs = (Inr [], fs))
   \<and> ((\<forall>r \<in> set (topic_table self). Types r \<notin> set std_type_to_look)
      \<longrightarrow> std_data self fs = (Inr [], fs))
   \<and> ((\<forall>r \<in> set (topic_table self). Types r \<noteq> ''nav_msgs/Odometry'')
      \<longrightarrow> odometry_data self fs = (Inr [], fs))
   \<and> ((\<forall>r \<in> set (topic_table self). Types r \<noteq> ''geometry_msgs/Wrench'')
      \<longrightarrow> wrench_data self fs = (Inr [], fs))
   \<and> ((\<forall>r \<in> set (topic_table self). Types r \<noteq> ''rosgraph_msgs/Clock'')
      \<longrightarrow> clock_data self fs = (Inr [], fs))"
  unfolding laser_data_def vel_data_def std_data_def odometry_data_def wrench_data_def
    clock_data_def
  by (intro conjI impI extract_csv_no_rows table_rows_empty) simp_all

theorem no_topic_of_type_returns_empty_witness:
  "laser_data image_bag empty_folder = (Inr [], empty_folder)
   \<and> vel_data image_bag empty_folder = (Inr [], empty_folder)
   \<and> std_data image_bag empty_folder = (Inr [], empty_folder)
   \<and> odometry_data image_bag empty_folder = (Inr [], empty_folder)
   \<and> wrench_data image_bag empty_folder = (Inr [], empty_folder)
   \<and> clock_data image_bag empty_folder = (Inr [], empty_folder)"
  using no_topic_of_type_returns_empty [of image_bag empty_folder]
  by (simp add: image_bag_def std_type_to_look_def)

lemma standard_names_not_looked_for:
  "ty \<in> {''std_msgs/Byte'', ''std_msgs/UInt8'', ''std_msgs/UInt16'', ''std_msgs/UInt32'',
          ''std_msgs/UInt64''} \<Longrightarrow> ty \<notin> set std_type_to_look"
  by (auto simp add: std_type_to_look_def)

section \<open>Calls of the methods that are not implemented\<close>

text \<open>
  C8. \<^verbatim>\<open>compressed_images\<close>, \<^verbatim>\<open>pointcloud_data\<close>, \<^verbatim>\<open>animate_laser\<close> and
  \<^verbatim>\<open>animate_pointcloud\<close> raise \<^verbatim>\<open>NotImplementedError\<close> on every call, whatever the
  object and the keyword arguments, and touch no file.
\<close>

theorem unsupported_operations_raise:
  "compressed_images self kw fs = (Inl (NotImplementedError ''To be implemented''), fs)
   \<and> pointcloud_data self kw fs = (Inl (NotImplementedError ''To be implemented''), fs)
   \<and> animate_laser self fs = (Inl (NotImplementedError ''To be implemented''), fs)
   \<and> animate_pointcloud self fs = (Inl (NotImplementedError ''To be implemented''), fs)"
  by (simp add: compressed_images_def pointcloud_data_def animate_laser_def
      animate_pointcloud_def)

section \<open>The slots of a laser scan\<close>

lemma fill_loop_fits:
  "ir + length xs \<le> length buf \<Longrightarrow>
   fill_loop buf ir xs = Inr (take ir buf @ map FloatV xs @ drop (ir + length xs) buf)"
proof (induction xs arbitrary: buf ir)
  case Nil
  then show ?case by simp
next
  case (Cons r rest)
  then have lt: "ir < length buf" by simp
  have "fill_loop (buf[ir := FloatV r]) (Suc ir) rest =
        Inr (take (Suc ir) (buf[ir := FloatV r]) @ map FloatV rest
             @ drop (Suc ir + length rest) (buf[ir := FloatV r]))"
    using Cons.prems by (intro Cons.IH) simp
  moreover have "take (Suc ir) (buf[ir := FloatV r]) = take ir buf @ [FloatV r]"
    using lt by (simp add: take_Suc_conv_app_nth)
  moreover have "drop (Suc ir + length rest) (buf[ir := FloatV r]) = drop (Suc ir + length rest) buf"
    by simp
  ultimately show ?case using lt by simp
qed

lemma fill_loop_overflows:
  "ir \<le> length buf \<Longrightarrow> length buf < ir + length xs \<Longrightarrow> fill_loop buf ir xs = Inl IndexError"
proof (induction xs arbitrary: buf ir)
  case Nil
  then show ?case by simp
next
  case (Cons r rest)
  show ?case
  proof (cases "ir < length buf")
    case True
    then have "fill_loop (buf[ir := FloatV r]) (Suc ir) rest = Inl IndexError"
      using Cons.prems by (intro Cons.IH) simp_all
    then show ?thesis using True by simp
  next
    case False
    then show ?thesis by simp
  qed
qed

lemma fill_slots_fits:
  "length xs \<le> 182 \<Longrightarrow>
   fill_slots xs = Inr (map FloatV xs @ replicate (182 - length xs) Absent)"
  by (simp add: fill_slots_def fill_loop_fits)

lemma fill_slots_overflows:
  "182 < length xs \<Longrightarrow> fill_slots xs = Inl IndexError"
  by (simp add: fill_slots_def fill_loop_overflows)

lemma fill_slots_length: "fill_slots xs = Inr buf \<Longrightarrow> length buf = 182"
  by (cases "length xs \<le> 182") (auto simp add: fill_slots_fits fill_slots_overflows)

lemma laser_row_overflows:
  assumes "stamp_seconds t = Inr tm"
    and "182 < length (ranges m) \<or> 182 < length (intensities m)"
  shows "laser_row t (LaserScanMsg m) = Inl IndexError"
proof (cases "182 < length (ranges m)")
  case True
  then show ?thesis using assms(1) by (simp add: laser_row_def fill_slots_overflows)
next
  case False
  then have "182 < length (intensities m)" "length (ranges m) \<le> 182"
    using assms(2) by simp_all
  then show ?thesis
    using assms(1) by (simp add: laser_row_def fill_slots_overflows fill_slots_fits)
qed

lemma laser_row_fits:
  assumes "stamp_seconds t = Inr tm"
    and "length (ranges m) \<le> 182" and "length (intensities m) \<le> 182"
  shows "laser_row t (LaserScanMsg m) =
         Inr ([FloatV tm, IntV (seq (laserscan_header m)), StrV (frame_id (laserscan_header m)),
               FloatV (angle_min m), FloatV (angle_max m), FloatV (angle_increment m),
               FloatV (time_increment m), FloatV (scan_time m), FloatV (range_min m),
               FloatV (range_max m)]
              @ (map FloatV (ranges m) @ replicate (182 - length (ranges m)) Absent)
              @ (map FloatV (intensities m) @ replicate (182 - length (intensities m)) Absent))"
  using assms by (simp add: laser_row_def fill_slots_fits)

lemma write_rows_append:
  "write_rows row_of f recs = (None, f') \<Longrightarrow>
   write_rows row_of f (recs @ later) = write_rows row_of f' later"
proof (induction recs arbitrary: f)
  case Nil
  then show ?case by simp
next
  case (Cons rc recs)
  obtain tp msg t where rc: "rc = (tp, msg, t)" by (cases rc) auto
  show ?case
  proof (cases "row_of t msg")
    case (Inl e)
    then show ?thesis using Cons.prems rc by simp
  next
    case (Inr row)
    then show ?thesis using Cons rc by simp
  qed
qed

lemma empty_folder_writable: "writable empty_folder p"
  by (simp add: empty_folder_def)

lemmas run_extract = extract_csv_def topics_to_read_def table_rows_def write_topic_def Let_def
  file_to_write_def replace_slash_def read_messages_def empty_folder_writable

lemma short_scan_row:
  "laser_row \<lparr>secs = 10, nsecs = 0\<rparr> (LaserScanMsg short_scan) =
   Inr ([FloatV (Fin 10), IntV 1, StrV ''laser'', FloatV (Fin 0), FloatV (Fin 3), FloatV (Fin 1),
         FloatV (Fin 0), FloatV (Fin 0), FloatV (Fin 0), FloatV (Fin 30)]
        @ ([FloatV (Fin 5), FloatV (Fin 6), FloatV (Fin 7)] @ replicate 179 Absent)
        @ replicate 182 Absent)"
  using laser_row_fits [OF stamp_10_0, of short_scan] by (simp add: short_scan_def)



lemma write_topics_append:
  "write_topics cols row_of self fs acc tps = (Inr acc', fs') \<Longrightarrow>
   write_topics cols row_of self fs acc (tps @ later) = write_topics cols row_of self fs' acc' later"
proof (induction tps arbitrary: fs acc)
  case Nil
  then show ?case by simp
next
  case (Cons topic tps)
  obtain r fs1 where wt: "write_topic cols row_of self fs topic = (r, fs1)"
    by (cases "write_topic cols row_of self fs topic") auto
  show ?case
  proof (cases r)
    case (Inl e)
    then show ?thesis using Cons.prems wt by simp
  next
    case (Inr p)
    then show ?thesis using Cons wt by simp
  qed
qed




section \<open>The number of fields of a row\<close>

lemma length_laser_columns: "length laser_columns = 374"
  by (simp add: laser_columns_def)

lemma laser_row_length: "laser_row t msg = Inr row \<Longrightarrow> length row = length laser_columns"
  by (auto simp add: laser_row_def length_laser_columns split: sum.splits message.splits
      dest!: fill_slots_length)

lemma vel_row_length: "vel_row t msg = Inr row \<Longrightarrow> length row = length vel_columns"
  by (auto simp add: vel_row_def vel_columns_def split: sum.splits message.splits)

lemma std_row_length: "std_row t msg = Inr row \<Longrightarrow> length row = length std_columns"
  by (auto simp add: std_row_def std_columns_def split: sum.splits message.splits)

lemma wrench_row_length: "wrench_row t msg = Inr row \<Longrightarrow> length row = length wrench_columns"
  by (auto simp add: wrench_row_def wrench_columns_def split: sum.splits message.splits)

lemma clock_row_length: "clock_row t msg = Inr row \<Longrightarrow> length row = length clock_columns"
  by (auto simp add: clock_row_def clock_columns_def split: sum.splits message.splits)

lemma odometry_row_length: "odometry_row t msg = Inr row \<Longrightarrow> length row = 14"
  by (auto simp add: odometry_row_def split: sum.splits message.splits)

lemma length_odometry_columns: "length odometry_columns = 17"
  by (simp add: odometry_columns_def)


text \<open>
  C1 fails on \<^verbatim>\<open>odometry_data\<close>: the header has 17 names and each row has 14 fields,
  the three \<^verbatim>\<open>angular\<close> fields of the twist are never put in the row. Here the method is
  run on a bag with one odometry message.
\<close>

theorem odometry_rows_are_short:
  "fst (odometry_data odom_bag empty_folder) = Inr [''run1/-odom.csv'']
   \<and> map_option (map length) (files (snd (odometry_data odom_bag empty_folder)) ''run1/-odom.csv'')
       = Some [17, 14]"
  by (simp add: odometry_data_def run_extract odom_bag_def odometry_row_def stamp_10_0
      odometry_columns_def)

section \<open>A bag with one velocity topic\<close>


section \<open>The header line\<close>

lemma write_rows_shape:
  "write_rows row_of f recs = (r, f') \<Longrightarrow>
   \<exists>rows. f' = f @ rows \<and> length rows \<le> length recs
      \<and> (\<forall>row \<in> set rows. \<exists>t msg. row_of t msg = Inr row)"
proof (induction recs arbitrary: f)
  case Nil
  then show ?case by simp
next
  case (Cons rc recs)
  obtain tp msg t where rc: "rc = (tp, msg, t)" by (cases rc) auto
  show ?case
  proof (cases "row_of t msg")
    case (Inl e)
    then show ?thesis using Cons.prems rc by simp
  next
    case (Inr row)
    then have "write_rows row_of (f @ [row]) recs = (r, f')"
      using Cons.prems rc by simp
    from Cons.IH [OF this] obtain rows where
      "f' = (f @ [row]) @ rows" "length rows \<le> length recs"
      "\<forall>row \<in> set rows. \<exists>t msg. row_of t msg = Inr row"
      by blast
    then have "f' = f @ (row # rows) \<and> length (row # rows) \<le> length (rc # recs)
        \<and> (\<forall>row' \<in> set (row # rows). \<exists>t msg. row_of t msg = Inr row')"
      using Inr by auto
    then show ?thesis by blast
  qed
qed

lemma write_topic_shape:
  assumes "writable fs (file_to_write self topic)"
  shows "\<exists>r rows. write_topic cols row_of self fs topic
           = (r, fs\<lparr>files := (files fs)(file_to_write self topic \<mapsto> map StrV cols # rows)\<rparr>)
         \<and> length rows \<le> length (read_messages (reader self) topic)
         \<and> (\<forall>row \<in> set rows. \<exists>t msg. row_of t msg = Inr row)
         \<and> (\<forall>p. r = Inr p \<longrightarrow> p = file_to_write self topic)"
proof -
  obtain r0 f' where wr:
    "write_rows row_of [map StrV cols] (read_messages (reader self) topic) = (r0, f')"
    by (cases "write_rows row_of [map StrV cols] (read_messages (reader self) topic)") auto
  from write_rows_shape [OF this] obtain rows where rows:
    "f' = [map StrV cols] @ rows" "length rows \<le> length (read_messages (reader self) topic)"
    "\<forall>row \<in> set rows. \<exists>t msg. row_of t msg = Inr row"
    by blast
  show ?thesis
    using assms wr rows by (cases r0) (auto simp add: write_topic_def Let_def)
qed


lemma write_topic_Inr:
  assumes "write_topic cols row_of self fs topic = (Inr p, fs')"
  shows "p = file_to_write self topic
         \<and> (\<exists>rows. fs' = fs\<lparr>files := (files fs)(p \<mapsto> map StrV cols # rows)\<rparr>
              \<and> (\<forall>row \<in> set rows. \<exists>t msg. row_of t msg = Inr row))"
proof (cases "writable fs (file_to_write self topic)")
  case True
  from write_topic_shape [OF this, of cols row_of] assms show ?thesis
    by auto
next
  case False
  then show ?thesis using assms by (simp add: write_topic_def Let_def)
qed

lemma write_topics_headed:
  assumes "write_topics cols row_of self fs acc tps = (Inr paths, fs')"
    and "\<forall>p \<in> set acc. \<exists>rows. files fs p = Some (map StrV cols # rows)
           \<and> (\<forall>row \<in> set rows. \<exists>t msg. row_of t msg = Inr row)"
  shows "paths = acc @ map (file_to_write self) tps
         \<and> (\<forall>p \<in> set paths. \<exists>rows. files fs' p = Some (map StrV cols # rows)
              \<and> (\<forall>row \<in> set rows. \<exists>t msg. row_of t msg = Inr row))"
  using assms
proof (induction tps arbitrary: fs acc)
  case Nil
  then show ?case by simp
next
  case (Cons topic tps)
  obtain r fs1 where wt: "write_topic cols row_of self fs topic = (r, fs1)"
    by (cases "write_topic cols row_of self fs topic") auto
  show ?case
  proof (cases r)
    case (Inl e)
    then show ?thesis using Cons.prems(1) wt by simp
  next
    case (Inr p)
    from write_topic_Inr [OF wt [unfolded Inr]] obtain rows where
      p: "p = file_to_write self topic"
      and fs1: "fs1 = fs\<lparr>files := (files fs)(p \<mapsto> map StrV cols # rows)\<rparr>"
      and rows: "\<forall>row \<in> set rows. \<exists>t msg. row_of t msg = Inr row"
      by blast
    have rest: "write_topics cols row_of self fs1 (acc @ [p]) tps = (Inr paths, fs')"
      using Cons.prems(1) wt Inr by simp
    have inv: "\<forall>q \<in> set (acc @ [p]). \<exists>rows. files fs1 q = Some (map StrV cols # rows)
           \<and> (\<forall>row \<in> set rows. \<exists>t msg. row_of t msg = Inr row)"
      using Cons.prems(2) fs1 rows by auto
    from Cons.IH [OF rest inv] show ?thesis
      using p by simp
  qed
qed

lemma extract_csv_headed:
  assumes "extract_csv type_ok cols row_of self fs = (Inr paths, fs')"
    and "\<And>t msg. row_of t msg \<noteq> Inr (map StrV cols)"
  shows "paths = map (file_to_write self) (topics_to_read type_ok self)
         \<and> (\<forall>p \<in> set paths. \<exists>rows. files fs' p = Some (map StrV cols # rows)
              \<and> map StrV cols \<notin> set rows)"
proof -
  from write_topics_headed [OF assms(1) [unfolded extract_csv_def]]
  have "paths = [] @ map (file_to_write self) (topics_to_read type_ok self)
         \<and> (\<forall>p \<in> set paths. \<exists>rows. files fs' p = Some (map StrV cols # rows)
              \<and> (\<forall>row \<in> set rows. \<exists>t msg. row_of t msg = Inr row))"
    by simp
  then show ?thesis
    using assms(2) by (metis append_Nil)
qed














lemma std_row_not_header: "std_row t msg \<noteq> Inr (map StrV cols)"
  by (auto simp add: std_row_def Cons_eq_map_conv split: sum.splits message.splits)








section \<open>What a call writes for one topic\<close>

lemma write_topic_frame:
  "p \<noteq> file_to_write self topic \<Longrightarrow>
   files (snd (write_topic cols row_of self fs topic)) p = files fs p"
  by (simp add: write_topic_def Let_def split: prod.splits option.splits)

lemma write_topics_frame:
  "p \<notin> file_to_write self ` set tps \<Longrightarrow>
   files (snd (write_topics cols row_of self fs acc tps)) p = files fs p"
proof (induction tps arbitrary: fs acc)
  case Nil
  then show ?case by simp
next
  case (Cons topic tps)
  obtain r fs1 where wt: "write_topic cols row_of self fs topic = (r, fs1)"
    by (cases "write_topic cols row_of self fs topic") auto
  have one: "files fs1 p = files fs p"
    using write_topic_frame [of p self topic cols row_of fs] Cons.prems wt by simp
  show ?case
  proof (cases r)
    case (Inl e)
    then show ?thesis using wt one by simp
  next
    case (Inr path)
    have "files (snd (write_topics cols row_of self fs1 (acc @ [path]) tps)) p = files fs1 p"
      using Cons.prems by (intro Cons.IH) simp
    then show ?thesis using wt Inr one by simp
  qed
qed

lemma write_topic_cong:
  "reader self = reader self' \<Longrightarrow> datafolder self = datafolder self' \<Longrightarrow>
   write_topic cols row_of self fs topic = write_topic cols row_of self' fs topic"
  by (simp add: write_topic_def file_to_write_def Let_def)

lemma write_topics_cong:
  "reader self = reader self' \<Longrightarrow> datafolder self = datafolder self' \<Longrightarrow>
   write_topics cols row_of self fs acc tps = write_topics cols row_of self' fs acc tps"
proof (induction tps arbitrary: fs acc)
  case Nil
  then show ?case by simp
next
  case (Cons topic tps)
  have "write_topic cols row_of self fs topic = write_topic cols row_of self' fs topic"
    using Cons.prems by (rule write_topic_cong)
  then show ?case
    using Cons by (simp split: prod.splits sum.splits)
qed

lemma extract_csv_rows_written:
  assumes tps: "topics_to_read type_ok self = before @ topic # rest"
    and bef: "write_topics cols row_of self fs [] before = (Inr paths, fs1)"
    and w: "writable fs1 (file_to_write self topic)"
    and apart: "file_to_write self topic \<notin> file_to_write self ` set rest"
    and msgs: "read_messages (reader self) topic = recs @ later"
    and rows: "write_rows row_of [map StrV cols] recs = (None, f)"
  shows "\<exists>r more. write_topic cols row_of self fs1 topic
             = (r, fs1\<lparr>files := (files fs1)(file_to_write self topic \<mapsto> f @ more)\<rparr>)
           \<and> (later = [] \<longrightarrow> r = Inr (file_to_write self topic))
           \<and> length more \<le> length later
           \<and> files (snd (extract_csv type_ok cols row_of self fs)) (file_to_write self topic)
               = Some (f @ more)"
proof -
  obtain r0 f' where wr: "write_rows row_of f later = (r0, f')"
    by (cases "write_rows row_of f later") auto
  from write_rows_shape [OF wr] obtain more where
    more: "f' = f @ more" "length more \<le> length later"
    by blast
  have all: "write_rows row_of [map StrV cols] (read_messages (reader self) topic) = (r0, f @ more)"
    using write_rows_append [OF rows, of later] wr more msgs by simp
  define fs2 where "fs2 = fs1\<lparr>files := (files fs1)(file_to_write self topic \<mapsto> f @ more)\<rparr>"
  define r where "r = (case r0 of None \<Rightarrow> Inr (file_to_write self topic) | Some e \<Rightarrow> Inl e)"
  have wt: "write_topic cols row_of self fs1 topic = (r, fs2)"
    using w all by (cases r0) (simp_all add: write_topic_def Let_def fs2_def r_def)
  have here: "files fs2 (file_to_write self topic) = Some (f @ more)"
    by (simp add: fs2_def)
  have run: "extract_csv type_ok cols row_of self fs
      = write_topics cols row_of self fs1 paths (topic # rest)"
    using write_topics_append [OF bef, of "topic # rest"] tps by (simp add: extract_csv_def)
  have final: "files (snd (extract_csv type_ok cols row_of self fs)) (file_to_write self topic)
      = Some (f @ more)"
  proof (cases r)
    case (Inl e)
    then show ?thesis using run wt here by simp
  next
    case (Inr path)
    have "files (snd (write_topics cols row_of self fs2 (paths @ [path]) rest))
            (file_to_write self topic) = files fs2 (file_to_write self topic)"
      using apart by (rule write_topics_frame)
    then show ?thesis using run wt Inr here by simp
  qed
  have last: "later = [] \<longrightarrow> r = Inr (file_to_write self topic)"
    using wr by (auto simp add: r_def)
  show ?thesis
    using wt final more(2) last unfolding fs2_def by blast
qed


section \<open>Short arrays of a laser scan\<close>

lemma lopsided_scan_row:
  "laser_row \<lparr>secs = 10, nsecs = 0\<rparr> (LaserScanMsg lopsided_scan) = Inl IndexError"
  using laser_row_overflows [OF stamp_10_0, of lopsided_scan] by (simp add: lopsided_scan_def)

text \<open>
  C4, as the claim states it, fails: a record with 3 ranges and 183 intensities is in its
  scope, and no slot of it is written. Filling the intensities raises \<^verbatim>\<open>IndexError\<close>
  before the row is handed to the writer; the file holds the header alone.
\<close>

theorem laser_lopsided_record_counterexample:
  "length (ranges lopsided_scan) = 3
   \<and> fst (laser_data lopsided_scan_bag empty_folder) = Inl IndexError
   \<and> files (snd (laser_data lopsided_scan_bag empty_folder)) ''run1/-scan.csv''
       = Some [map StrV laser_columns]"
  by (simp add: laser_data_def run_extract lopsided_scan_bag_def lopsided_scan_row)
    (simp add: lopsided_scan_def short_scan_def)

text \<open>
  C4, amended. A record whose ranges and intensities both have at most 182 elements
  gives a row in which each array takes 182 slots: its elements first, in order, then
  \<^verbatim>\<open>None\<close> in every slot left; the slots are a new list for each record, an empty array
  gives 182 times \<^verbatim>\<open>None\<close>, and an array of 182 elements gives no \<^verbatim>\<open>None\<close>. When the
  record is reached (the topics before its topic are written, its file opens, and the
  records before it on its topic give rows), \<^verbatim>\<open>laser_data\<close> leaves that row in the file
  of the topic, right after the rows of the records before it.
\<close>

theorem laser_fitting_record_padded:
  assumes "stamp_seconds t = Inr tm"
    and "length (ranges m) \<le> 182" and "length (intensities m) \<le> 182"
  shows "laser_row t (LaserScanMsg m) =
           Inr ([FloatV tm, IntV (seq (laserscan_header m)), StrV (frame_id (laserscan_header m)),
                FloatV (angle_min m), FloatV (angle_max m), FloatV (angle_increment m),
                FloatV (time_increment m), FloatV (scan_time m), FloatV (range_min m),
                FloatV (range_max m)]
               @ (map FloatV (ranges m) @ replicate (182 - length (ranges m)) Absent)
               @ (map FloatV (intensities m) @ replicate (182 - length (intensities m)) Absent))
         \<and> fill_slots (ranges m) =
             Inr (map FloatV (ranges m) @ replicate (182 - length (ranges m)) Absent)
         \<and> fill_slots (intensities m) =
             Inr (map FloatV (intensities m) @ replicate (182 - length (intensities m)) Absent)
         \<and> fill_slots [] = Inr (replicate 182 Absent)
         \<and> (\<forall>xs buf. length xs = 182 \<and> fill_slots xs = Inr buf \<longrightarrow> Absent \<notin> set buf)
         \<and> (\<forall>self fs before topic rest paths fs1 recs f tp later.
               topics_to_read (\<lambda>ty. ty = ''sensor_msgs/LaserScan'') self = before @ topic # rest
               \<and> write_topics laser_columns laser_row self fs [] before = (Inr paths, fs1)
               \<and> writable fs1 (file_to_write self topic)
               \<and> file_to_write self topic \<notin> file_to_write self ` set rest
               \<and> read_messages (reader self) topic = recs @ (tp, LaserScanMsg m, t) # later
               \<and> write_rows laser_row [map StrV laser_columns] recs = (None, f)
               \<longrightarrow> (\<exists>more.
                     files (snd (laser_data self fs)) (file_to_write self topic)
                       = Some (f @ [([FloatV tm, IntV (seq (laserscan_header m)), StrV (frame_id (laserscan_header m)),
                FloatV (angle_min m), FloatV (angle_max m), FloatV (angle_increment m),
                FloatV (time_increment m), FloatV (scan_time m), FloatV (range_min m),
                FloatV (range_max m)]
               @ (map FloatV (ranges m) @ replicate (182 - length (ranges m)) Absent)
               @ (map FloatV (intensities m) @ replicate (182 - length (intensities m)) Absent))] @ more)
                     \<and> length more \<le> length later))"
proof (intro conjI allI impI)
  define row where "row = ([FloatV tm, IntV (seq (laserscan_header m)), StrV (frame_id (laserscan_header m)),
                FloatV (angle_min m), FloatV (angle_max m), FloatV (angle_increment m),
                FloatV (time_increment m), FloatV (scan_time m), FloatV (range_min m),
                FloatV (range_max m)]
               @ (map FloatV (ranges m) @ replicate (182 - length (ranges m)) Absent)
               @ (map FloatV (intensities m) @ replicate (182 - length (intensities m)) Absent))"
  show r: "laser_row t (LaserScanMsg m) = Inr ([FloatV tm, IntV (seq (laserscan_header m)), StrV (frame_id (laserscan_header m)),
                FloatV (angle_min m), FloatV (angle_max m), FloatV (angle_increment m),
                FloatV (time_increment m), FloatV (scan_time m), FloatV (range_min m),
                FloatV (range_max m)]
               @ (map FloatV (ranges m) @ replicate (182 - length (ranges m)) Absent)
               @ (map FloatV (intensities m) @ replicate (182 - length (intensities m)) Absent))"
    using assms by (rule laser_row_fits)
  show "fill_slots (ranges m) =
          Inr (map FloatV (ranges m) @ replicate (182 - length (ranges m)) Absent)"
    using assms(2) by (rule fill_slots_fits)
  show "fill_slots (intensities m) =
          Inr (map FloatV (intensities m) @ replicate (182 - length (intensities m)) Absent)"
    using assms(3) by (rule fill_slots_fits)
  show "fill_slots [] = Inr (replicate 182 Absent)"
    by (simp add: fill_slots_fits)
  show "Absent \<notin> set buf" if "length xs = 182 \<and> fill_slots xs = Inr buf" for xs buf
    using that by (auto simp add: fill_slots_fits)
  fix self fs before topic rest paths fs1 recs f tp later
  assume a: "topics_to_read (\<lambda>ty. ty = ''sensor_msgs/LaserScan'') self = before @ topic # rest
               \<and> write_topics laser_columns laser_row self fs [] before = (Inr paths, fs1)
               \<and> writable fs1 (file_to_write self topic)
               \<and> file_to_write self topic \<notin> file_to_write self ` set rest
               \<and> read_messages (reader self) topic = recs @ (tp, LaserScanMsg m, t) # later
               \<and> write_rows laser_row [map StrV laser_columns] recs = (None, f)"
  have r': "laser_row t (LaserScanMsg m) = Inr row"
    using r by (simp only: row_def)
  have upto: "write_rows laser_row [map StrV laser_columns] (recs @ [(tp, LaserScanMsg m, t)])
      = (None, f @ [row])"
    using a r' by (simp add: write_rows_append)
  have msgs: "read_messages (reader self) topic = (recs @ [(tp, LaserScanMsg m, t)]) @ later"
    using a by simp
  from a have tps: "topics_to_read (\<lambda>ty. ty = ''sensor_msgs/LaserScan'') self = before @ topic # rest"
    and bef: "write_topics laser_columns laser_row self fs [] before = (Inr paths, fs1)"
    and w: "writable fs1 (file_to_write self topic)"
    and apart: "file_to_write self topic \<notin> file_to_write self ` set rest"
    by simp_all
  from extract_csv_rows_written [OF tps bef w apart msgs upto]
  obtain more where
    "files (snd (extract_csv (\<lambda>ty. ty = ''sensor_msgs/LaserScan'') laser_columns laser_row self fs))
       (file_to_write self topic) = Some ((f @ [row]) @ more)"
    "length more \<le> length later"
    by blast
  then have "files (snd (laser_data self fs)) (file_to_write self topic) = Some (f @ [row] @ more)
      \<and> length more \<le> length later"
    by (simp add: laser_data_def)
  then show "\<exists>more.
       files (snd (laser_data self fs)) (file_to_write self topic)
         = Some (f @ [([FloatV tm, IntV (seq (laserscan_header m)), StrV (frame_id (laserscan_header m)),
                FloatV (angle_min m), FloatV (angle_max m), FloatV (angle_increment m),
                FloatV (time_increment m), FloatV (scan_time m), FloatV (range_min m),
                FloatV (range_max m)]
               @ (map FloatV (ranges m) @ replicate (182 - length (ranges m)) Absent)
               @ (map FloatV (intensities m) @ replicate (182 - length (intensities m)) Absent))] @ more)
       \<and> length more \<le> length later"
    unfolding row_def by blast
qed

theorem laser_fitting_record_padded_witness:
  "files (snd (laser_data two_scan_bag empty_folder)) ''run1/-scan.csv'' =
     Some [map StrV laser_columns,
           [FloatV (Fin 10), IntV 1, StrV ''laser'', FloatV (Fin 0), FloatV (Fin 3), FloatV (Fin 1),
            FloatV (Fin 0), FloatV (Fin 0), FloatV (Fin 0), FloatV (Fin 30)]
           @ ([FloatV (Fin 5), FloatV (Fin 6), FloatV (Fin 7)] @ replicate 179 Absent)
           @ replicate 182 Absent,
           [FloatV (Fin 11), IntV 1, StrV ''laser'', FloatV (Fin 0), FloatV (Fin 3), FloatV (Fin 1),
            FloatV (Fin 0), FloatV (Fin 0), FloatV (Fin 0), FloatV (Fin 30)]
           @ ([FloatV (Fin 8)] @ replicate 181 Absent)
           @ replicate 182 Absent]"
proof -
  have fits: "length (ranges shorter_scan) \<le> 182" "length (intensities shorter_scan) \<le> 182"
    by (simp_all add: shorter_scan_def short_scan_def)
  have topics: "topics_to_read (\<lambda>ty. ty = ''sensor_msgs/LaserScan'') two_scan_bag
      = [] @ ''/scan'' # []"
    by (simp add: topics_to_read_def table_rows_def two_scan_bag_def)
  have none_before: "write_topics laser_columns laser_row two_scan_bag empty_folder [] []
      = (Inr [], empty_folder)"
    by simp
  have path: "file_to_write two_scan_bag ''/scan'' = ''run1/-scan.csv''"
    by (simp add: file_to_write_def replace_slash_def two_scan_bag_def)
  have can: "writable empty_folder (file_to_write two_scan_bag ''/scan'')"
    by (rule empty_folder_writable)
  have apart: "file_to_write two_scan_bag ''/scan'' \<notin> file_to_write two_scan_bag ` set []"
    by simp
  have msgs: "read_messages (reader two_scan_bag) ''/scan''
      = [(''/scan'', LaserScanMsg short_scan, \<lparr>secs = 10, nsecs = 0\<rparr>)]
        @ (''/scan'', LaserScanMsg shorter_scan, \<lparr>secs = 11, nsecs = 0\<rparr>) # []"
    by (simp add: read_messages_def two_scan_bag_def)
  have first: "write_rows laser_row [map StrV laser_columns]
        [(''/scan'', LaserScanMsg short_scan, \<lparr>secs = 10, nsecs = 0\<rparr>)]
      = (None,
         [map StrV laser_columns,
          [FloatV (Fin 10), IntV 1, StrV ''laser'', FloatV (Fin 0), FloatV (Fin 3), FloatV (Fin 1),
           FloatV (Fin 0), FloatV (Fin 0), FloatV (Fin 0), FloatV (Fin 30)]
          @ ([FloatV (Fin 5), FloatV (Fin 6), FloatV (Fin 7)] @ replicate 179 Absent)
          @ replicate 182 Absent])"
    by (simp add: short_scan_row)
  note inst = laser_fitting_record_padded [OF stamp_11_0 fits]
  from inst topics none_before can apart msgs first
  obtain more where
    "files (snd (laser_data two_scan_bag empty_folder)) (file_to_write two_scan_bag ''/scan'')
       = Some ([map StrV laser_columns,
          [FloatV (Fin 10), IntV 1, StrV ''laser'', FloatV (Fin 0), FloatV (Fin 3), FloatV (Fin 1),
           FloatV (Fin 0), FloatV (Fin 0), FloatV (Fin 0), FloatV (Fin 30)]
          @ ([FloatV (Fin 5), FloatV (Fin 6), FloatV (Fin 7)] @ replicate 179 Absent)
          @ replicate 182 Absent]
          @ [[FloatV (Fin 11), IntV (seq (laserscan_header shorter_scan)),
              StrV (frame_id (laserscan_header shorter_scan)),
              FloatV (angle_min shorter_scan), FloatV (angle_max shorter_scan),
              FloatV (angle_increment shorter_scan), FloatV (time_increment shorter_scan),
              FloatV (scan_time shorter_scan), FloatV (range_min shorter_scan),
              FloatV (range_max shorter_scan)]
             @ (map FloatV (ranges shorter_scan)
                @ replicate (182 - length (ranges shorter_scan)) Absent)
             @ (map FloatV (intensities shorter_scan)
                @ replicate (182 - length (intensities shorter_scan)) Absent)]
          @ more)"
    "length more \<le> length ([] :: (string \<times> message \<times> rostime) list)"
    by blast
  then show ?thesis
    by (simp add: path shorter_scan_def short_scan_def)
qed

section \<open>Three velocity commands on any topic\<close>

text \<open>
  C9. For a topic of type \<^verbatim>\<open>geometry_msgs/Twist\<close> whose messages are three, at the
  times (10, 0), (10, 500000000) and (11, 0), in any bag: when the topic is reached (the
  topics before it are written and its file opens), \<^verbatim>\<open>vel_data\<close> writes the header and
  then three rows in the order of the messages; their times are 10.0, 10.5 and 11.0,
  computed in binary64 arithmetic, and their six other fields are the fields of the
  messages. The file stays so to the end of the call when no later topic has its path.
\<close>

theorem vel_data_three_rows:
  assumes "topics_to_read (\<lambda>ty. ty = ''geometry_msgs/Twist'') self = before @ topic # rest"
    and "write_topics vel_columns vel_row self fs [] before = (Inr paths, fs1)"
    and "writable fs1 (file_to_write self topic)"
    and "file_to_write self topic \<notin> file_to_write self ` set rest"
    and "read_messages (reader self) topic =
           [(tp1, TwistMsg m1, \<lparr>secs = 10, nsecs = 0\<rparr>),
            (tp2, TwistMsg m2, \<lparr>secs = 10, nsecs = 500000000\<rparr>),
            (tp3, TwistMsg m3, \<lparr>secs = 11, nsecs = 0\<rparr>)]"
  shows "write_topic vel_columns vel_row self fs1 topic
           = (Inr (file_to_write self topic),
              fs1\<lparr>files := (files fs1)(file_to_write self topic \<mapsto>
                [map StrV vel_columns,
                 [FloatV (Fin 10),
                  FloatV (vector3_x (twist_linear m1)), FloatV (vector3_y (twist_linear m1)),
                  FloatV (vector3_z (twist_linear m1)), FloatV (vector3_x (twist_angular m1)),
                  FloatV (vector3_y (twist_angular m1)), FloatV (vector3_z (twist_angular m1))],
                 [FloatV (Fin (21 / 2)),
                  FloatV (vector3_x (twist_linear m2)), FloatV (vector3_y (twist_linear m2)),
                  FloatV (vector3_z (twist_linear m2)), FloatV (vector3_x (twist_angular m2)),
                  FloatV (vector3_y (twist_angular m2)), FloatV (vector3_z (twist_angular m2))],
                 [FloatV (Fin 11),
                  FloatV (vector3_x (twist_linear m3)), FloatV (vector3_y (twist_linear m3)),
                  FloatV (vector3_z (twist_linear m3)), FloatV (vector3_x (twist_angular m3)),
                  FloatV (vector3_y (twist_angular m3)), FloatV (vector3_z (twist_angular m3))]])\<rparr>)
         \<and> files (snd (vel_data self fs)) (file_to_write self topic)
             = Some [map StrV vel_columns,
                 [FloatV (Fin 10),
                  FloatV (vector3_x (twist_linear m1)), FloatV (vector3_y (twist_linear m1)),
                  FloatV (vector3_z (twist_linear m1)), FloatV (vector3_x (twist_angular m1)),
                  FloatV (vector3_y (twist_angular m1)), FloatV (vector3_z (twist_angular m1))],
                 [FloatV (Fin (21 / 2)),
                  FloatV (vector3_x (twist_linear m2)), FloatV (vector3_y (twist_linear m2)),
                  FloatV (vector3_z (twist_linear m2)), FloatV (vector3_x (twist_angular m2)),
                  FloatV (vector3_y (twist_angular m2)), FloatV (vector3_z (twist_angular m2))],
                 [FloatV (Fin 11),
                  FloatV (vector3_x (twist_linear m3)), FloatV (vector3_y (twist_linear m3)),
                  FloatV (vector3_z (twist_linear m3)), FloatV (vector3_x (twist_angular m3)),
                  FloatV (vector3_y (twist_angular m3)), FloatV (vector3_z (twist_angular m3))]]"
proof -
  define f where "f = [map StrV vel_columns,
                 [FloatV (Fin 10),
                  FloatV (vector3_x (twist_linear m1)), FloatV (vector3_y (twist_linear m1)),
                  FloatV (vector3_z (twist_linear m1)), FloatV (vector3_x (twist_angular m1)),
                  FloatV (vector3_y (twist_angular m1)), FloatV (vector3_z (twist_angular m1))],
                 [FloatV (Fin (21 / 2)),
                  FloatV (vector3_x (twist_linear m2)), FloatV (vector3_y (twist_linear m2)),
                  FloatV (vector3_z (twist_linear m2)), FloatV (vector3_x (twist_angular m2)),
                  FloatV (vector3_y (twist_angular m2)), FloatV (vector3_z (twist_angular m2))],
                 [FloatV (Fin 11),
                  FloatV (vector3_x (twist_linear m3)), FloatV (vector3_y (twist_linear m3)),
                  FloatV (vector3_z (twist_linear m3)), FloatV (vector3_x (twist_angular m3)),
                  FloatV (vector3_y (twist_angular m3)), FloatV (vector3_z (twist_angular m3))]]"
  have rows: "write_rows vel_row [map StrV vel_columns]
      [(tp1, TwistMsg m1, \<lparr>secs = 10, nsecs = 0\<rparr>),
       (tp2, TwistMsg m2, \<lparr>secs = 10, nsecs = 500000000\<rparr>),
       (tp3, TwistMsg m3, \<lparr>secs = 11, nsecs = 0\<rparr>)] = (None, f)"
    by (simp add: vel_row_def stamp_10_0 stamp_10_5 stamp_11_0 f_def)
  have msgs: "read_messages (reader self) topic =
      [(tp1, TwistMsg m1, \<lparr>secs = 10, nsecs = 0\<rparr>),
       (tp2, TwistMsg m2, \<lparr>secs = 10, nsecs = 500000000\<rparr>),
       (tp3, TwistMsg m3, \<lparr>secs = 11, nsecs = 0\<rparr>)] @ []"
    using assms(5) by simp
  from extract_csv_rows_written [OF assms(1,2,3,4) msgs rows]
  obtain r more where
    "write_topic vel_columns vel_row self fs1 topic
       = (r, fs1\<lparr>files := (files fs1)(file_to_write self topic \<mapsto> f @ more)\<rparr>)"
    "r = Inr (file_to_write self topic)"
    "length more \<le> length ([] :: (string \<times> message \<times> rostime) list)"
    "files (snd (extract_csv (\<lambda>ty. ty = ''geometry_msgs/Twist'') vel_columns vel_row self fs))
       (file_to_write self topic) = Some (f @ more)"
    by blast
  then have "write_topic vel_columns vel_row self fs1 topic
       = (Inr (file_to_write self topic),
          fs1\<lparr>files := (files fs1)(file_to_write self topic \<mapsto> f)\<rparr>)
     \<and> files (snd (vel_data self fs)) (file_to_write self topic) = Some f"
    by (simp add: vel_data_def)
  then show ?thesis
    unfolding f_def .
qed

lemma idle_topic_written:
  "write_topics vel_columns vel_row vel_odom_bag empty_folder [] [''/idle_vel'']
     = (Inr [''run1/-idle_vel.csv''],
        empty_folder\<lparr>files := (files empty_folder)(''run1/-idle_vel.csv'' \<mapsto> [map StrV vel_columns])\<rparr>)"
  by (simp add: run_extract vel_odom_bag_def)

theorem vel_data_three_rows_witness:
  "files (snd (vel_data vel_odom_bag empty_folder)) ''run1/-cmd_vel.csv'' =
     Some [map StrV vel_columns,
           [FloatV (Fin 10), FloatV (Fin 1), FloatV (Fin 0), FloatV (Fin 0),
            FloatV (Fin 0), FloatV (Fin 0), FloatV (Fin 0)],
           [FloatV (Fin (21 / 2)), FloatV (Fin 2), FloatV (Fin 0), FloatV (Fin 0),
            FloatV (Fin 0), FloatV (Fin 0), FloatV (Fin 1)],
           [FloatV (Fin 11), FloatV (Fin 0), FloatV (Fin 0), FloatV (Fin 0),
            FloatV (Fin 0), FloatV (Fin 0), FloatV (Fin 0)]]"
proof -
  have topics: "topics_to_read (\<lambda>ty. ty = ''geometry_msgs/Twist'') vel_odom_bag
      = [''/idle_vel''] @ ''/cmd_vel'' # []"
    by (simp add: topics_to_read_def table_rows_def vel_odom_bag_def)
  have path: "file_to_write vel_odom_bag ''/cmd_vel'' = ''run1/-cmd_vel.csv''"
    by (simp add: file_to_write_def replace_slash_def vel_odom_bag_def)
  have can: "writable
      (empty_folder\<lparr>files := (files empty_folder)(''run1/-idle_vel.csv'' \<mapsto> [map StrV vel_columns])\<rparr>)
      (file_to_write vel_odom_bag ''/cmd_vel'')"
    by (simp add: empty_folder_def)
  have apart: "file_to_write vel_odom_bag ''/cmd_vel'' \<notin> file_to_write vel_odom_bag ` set []"
    by simp
  have msgs: "read_messages (reader vel_odom_bag) ''/cmd_vel'' =
      [(''/cmd_vel'', TwistMsg (twist_of 1 0 0 0 0 0), \<lparr>secs = 10, nsecs = 0\<rparr>),
       (''/cmd_vel'', TwistMsg (twist_of 2 0 0 0 0 1), \<lparr>secs = 10, nsecs = 500000000\<rparr>),
       (''/cmd_vel'', TwistMsg (twist_of 0 0 0 0 0 0), \<lparr>secs = 11, nsecs = 0\<rparr>)]"
    by (simp add: read_messages_def vel_odom_bag_def)
  from vel_data_three_rows [OF topics idle_topic_written can apart msgs]
  show ?thesis
    by (simp add: path twist_of_def)
qed

section \<open>The standard names that std_data does not look for\<close>

lemma flag_bag_files:
  "std_data flag_bag empty_folder =
     (Inr [''run1/-ok.csv''],
      empty_folder\<lparr>files := (files empty_folder)(''run1/-ok.csv'' \<mapsto>
         [map StrV std_columns, [FloatV (Fin 10), BoolV True]])\<rparr>)"
  by (simp add: std_data_def run_extract flag_bag_def std_type_to_look_def std_row_def stamp_10_0)

text \<open>
  C10. No row that \<^verbatim>\<open>std_data\<close> selects from the topic table has the type
  \<^verbatim>\<open>std_msgs/Byte\<close>, \<^verbatim>\<open>std_msgs/UInt8\<close>, \<^verbatim>\<open>std_msgs/UInt16\<close>, \<^verbatim>\<open>std_msgs/UInt32\<close>
  or \<^verbatim>\<open>std_msgs/UInt64\<close>: none of these names stands in its list of types. So
  \<^verbatim>\<open>std_data\<close> does on any bag what it does on the bag without the topics of these
  types; the paths it returns are those of the rows whose type is in the list, one for
  each, and it leaves every file at another path as it was. A bag with topics of these
  types only gives the empty list of paths, and no file is written.
\<close>

theorem std_data_ignores_standard_names:
  "(\<forall>r \<in> set (table_rows (\<lambda>ty. ty \<in> set std_type_to_look) self).
      Types r \<notin> {''std_msgs/Byte'', ''std_msgs/UInt8'', ''std_msgs/UInt16'',
                   ''std_msgs/UInt32'', ''std_msgs/UInt64''})
   \<and> std_data self fs
       = std_data
           (self\<lparr>topic_table :=
              filter (\<lambda>r. Types r \<notin> {''std_msgs/Byte'', ''std_msgs/UInt8'', ''std_msgs/UInt16'',
                   ''std_msgs/UInt32'', ''std_msgs/UInt64''}) (topic_table self)\<rparr>) fs
   \<and> (std_data self fs = (Inr paths, fs')
      \<longrightarrow> paths = map (\<lambda>r. file_to_write self (Topics r))
                    (filter (\<lambda>r. Types r \<in> set std_type_to_look) (topic_table self))
          \<and> (\<forall>p. p \<notin> set paths \<longrightarrow> files fs' p = files fs p))
   \<and> ((\<forall>r \<in> set (topic_table self).
         Types r \<in> {''std_msgs/Byte'', ''std_msgs/UInt8'', ''std_msgs/UInt16'',
                   ''std_msgs/UInt32'', ''std_msgs/UInt64''})
      \<longrightarrow> std_data self fs = (Inr [], fs))"
proof (intro conjI ballI impI allI)
  fix r
  assume "r \<in> set (table_rows (\<lambda>ty. ty \<in> set std_type_to_look) self)"
  then have "Types r \<in> set std_type_to_look"
    by (simp add: table_rows_def)
  then show "Types r \<notin> {''std_msgs/Byte'', ''std_msgs/UInt8'', ''std_msgs/UInt16'',
                   ''std_msgs/UInt32'', ''std_msgs/UInt64''}"
    using standard_names_not_looked_for by blast
next
  let ?self' = "self\<lparr>topic_table :=
      filter (\<lambda>r. Types r \<notin> {''std_msgs/Byte'', ''std_msgs/UInt8'', ''std_msgs/UInt16'',
                   ''std_msgs/UInt32'', ''std_msgs/UInt64''}) (topic_table self)\<rparr>"
  have "filter (\<lambda>r. Types r \<in> set std_type_to_look)
          (filter (\<lambda>r. Types r \<notin> {''std_msgs/Byte'', ''std_msgs/UInt8'', ''std_msgs/UInt16'',
                   ''std_msgs/UInt32'', ''std_msgs/UInt64''}) (topic_table self))
        = filter (\<lambda>r. Types r \<in> set std_type_to_look) (topic_table self)"
    unfolding filter_filter
    by (rule filter_cong) (use standard_names_not_looked_for in auto)
  then have same: "topics_to_read (\<lambda>ty. ty \<in> set std_type_to_look) ?self'
      = topics_to_read (\<lambda>ty. ty \<in> set std_type_to_look) self"
    by (simp add: topics_to_read_def table_rows_def)
  have "write_topics std_columns std_row self fs []
          (topics_to_read (\<lambda>ty. ty \<in> set std_type_to_look) self)
        = write_topics std_columns std_row ?self' fs []
          (topics_to_read (\<lambda>ty. ty \<in> set std_type_to_look) self)"
    by (rule write_topics_cong) simp_all
  then show "std_data self fs = std_data ?self' fs"
    unfolding std_data_def extract_csv_def same .
next
  assume run: "std_data self fs = (Inr paths, fs')"
  then have ex: "extract_csv (\<lambda>ty. ty \<in> set std_type_to_look) std_columns std_row self fs
      = (Inr paths, fs')"
    by (simp add: std_data_def)
  from extract_csv_headed [OF ex std_row_not_header]
  have p: "paths = map (file_to_write self) (topics_to_read (\<lambda>ty. ty \<in> set std_type_to_look) self)"
    by simp
  then show "paths = map (\<lambda>r. file_to_write self (Topics r))
                    (filter (\<lambda>r. Types r \<in> set std_type_to_look) (topic_table self))"
    by (simp add: topics_to_read_def table_rows_def comp_def)
  fix q
  assume "q \<notin> set paths"
  then have "q \<notin> file_to_write self ` set (topics_to_read (\<lambda>ty. ty \<in> set std_type_to_look) self)"
    using p by simp
  from write_topics_frame [OF this, of std_columns std_row fs "[]"]
  show "files fs' q = files fs q"
    using ex by (simp add: extract_csv_def)
next
  assume all: "\<forall>r \<in> set (topic_table self).
         Types r \<in> {''std_msgs/Byte'', ''std_msgs/UInt8'', ''std_msgs/UInt16'',
                   ''std_msgs/UInt32'', ''std_msgs/UInt64''}"
  have "table_rows (\<lambda>ty. ty \<in> set std_type_to_look) self = []"
    unfolding table_rows_def filter_empty_conv
    using all standard_names_not_looked_for by blast
  then show "std_data self fs = (Inr [], fs)"
    unfolding std_data_def by (rule extract_csv_no_rows)
qed

theorem std_data_ignores_standard_names_witness:
  "std_data flag_bag empty_folder
     = (Inr [''run1/-ok.csv''],
        empty_folder\<lparr>files := (files empty_folder)(''run1/-ok.csv'' \<mapsto>
           [map StrV std_columns, [FloatV (Fin 10), BoolV True]])\<rparr>)
   \<and> files (snd (std_data flag_bag empty_folder)) ''run1/-flag.csv'' = None
   \<and> files (snd (std_data flag_bag empty_folder)) ''run1/-count.csv'' = None
   \<and> std_data byte_bag empty_folder = (Inr [], empty_folder)"
proof -
  note inst = std_data_ignores_standard_names [of flag_bag empty_folder "[''run1/-ok.csv'']"
      "snd (std_data flag_bag empty_folder)"]
  have "files (snd (std_data flag_bag empty_folder)) ''run1/-flag.csv''
      = files empty_folder ''run1/-flag.csv''"
    using inst by (simp add: flag_bag_files)
  moreover have "files (snd (std_data flag_bag empty_folder)) ''run1/-count.csv''
      = files empty_folder ''run1/-count.csv''"
    using inst by (simp add: flag_bag_files)
  moreover have "std_data byte_bag empty_folder = (Inr [], empty_folder)"
  proof -
    have "\<forall>r \<in> set (topic_table byte_bag).
        Types r \<in> {''std_msgs/Byte'', ''std_msgs/UInt8'', ''std_msgs/UInt16'',
                   ''std_msgs/UInt32'', ''std_msgs/UInt64''}"
      by (simp add: byte_bag_def)
    with std_data_ignores_standard_names [of byte_bag empty_folder "[]" empty_folder]
    show ?thesis by blast
  qed
  moreover have "files empty_folder p = None" for p
    by (simp add: empty_folder_def)
  ultimately show ?thesis
    by (simp add: flag_bag_files)
qed

section \<open>Calls of timeindex\<close>

lemma dateparse_unbound: "load_name module_globals ''dateparse'' = Inl NameError"
  by (simp add: load_name_def module_globals_def)

lemma timeindex_raises:
  assumes "objects s df = Some d" and "getitem d ''Time'' = Inr col"
  shows "fst (timeindex to_datetime s df inplace) = Inl NameError"
  using assms
  by (simp add: timeindex_def timeindex_in_def dateparse_unbound Let_def split: prod.splits)

text \<open>
  C3 fails: \<^verbatim>\<open>timeindex\<close> on a table with the column \<^verbatim>\<open>Time\<close> and no row raises
  \<^verbatim>\<open>NameError\<close>, in place or not, since line 764 reads the name \<^verbatim>\<open>dateparse\<close> and
  the module binds no such name.
\<close>

theorem timeindex_empty_table_raises:
  "fst (timeindex to_datetime (store_of empty_table) 0 True) = Inl NameError
   \<and> fst (timeindex to_datetime (store_of empty_table) 0 False) = Inl NameError
   \<and> getitem empty_table ''Time'' = Inr []"
  by (simp add: timeindex_raises [where d = empty_table and col = "[]"] store_of_def
      getitem_def empty_table_def)

text \<open>
  C7 fails: on a table of two rows, \<^verbatim>\<open>timeindex\<close> in place raises \<^verbatim>\<open>NameError\<close> with
  the table as it was, and \<^verbatim>\<open>timeindex\<close> on a copy raises it too; neither call returns
  a table.
\<close>

theorem timeindex_returns_no_table:
  "timeindex to_datetime (store_of sample_table) 0 True = (Inl NameError, store_of sample_table)
   \<and> fst (timeindex to_datetime (store_of sample_table) 0 False) = Inl NameError
   \<and> objects (snd (timeindex to_datetime (store_of sample_table) 0 False)) 0 = Some sample_table"
  by (simp add: timeindex_def timeindex_in_def dateparse_unbound Let_def store_of_def
      getitem_def setitem_def put_def alloc_def sample_table_def)

text \<open>
  With a function bound to the name \<^verbatim>\<open>dateparse\<close> that parses every value of the time
  column, the same statements do what C3 and C7 say: in place, the call returns the
  reference it was given, with the table indexed; otherwise it returns a new reference
  and leaves the table of the caller as it was. With no row, \<open>col\<close>, \<open>ct\<close> and \<open>clk\<close>
  are empty and both conversions succeed.
\<close>

lemma map_of_setitem_same: "map_of (df_columns (setitem d n c)) n = Some c"
proof -
  have "map_of (map (\<lambda>(m, v). if m = n then (m, c) else (m, v)) cs) n = Some c"
    if "map_of cs n \<noteq> None" for cs :: "(string \<times> cell list) list"
    using that by (induction cs) (auto split: if_splits)
  then show ?thesis
    by (auto simp add: setitem_def map_add_def)
qed

lemma map_of_setitem_other:
  assumes "m \<noteq> n"
  shows "map_of (df_columns (setitem d n c)) m = map_of (df_columns d) m"
proof -
  have "map_of (map (\<lambda>(k, v). if k = n then (k, c) else (k, v)) cs) m = map_of cs m"
    for cs :: "(string \<times> cell list) list"
    using assms by (induction cs) auto
  then show ?thesis
    using assms by (auto simp add: setitem_def map_add_def split: option.splits)
qed

lemma map_of_filter_other:
  "m \<noteq> n \<Longrightarrow> map_of (filter (\<lambda>(k, v). k \<noteq> n) cs) m = map_of cs m"
  by (induction cs) auto

lemma index_steps:
  "set_index (setitem (setitem d1 ''ClockTime'' ct) ''Clock'' clk) ''Clock'' = Inr d4 \<Longrightarrow>
   drop_column d4 ''ClockTime'' =
     Inr (d4\<lparr>df_columns := filter (\<lambda>(n, c). n \<noteq> ''ClockTime'') (df_columns d4)\<rparr>)"
  by (auto simp add: set_index_def drop_column_def getitem_def map_of_setitem_same
      map_of_setitem_other map_of_filter_other split: option.splits)

lemma set_index_clock:
  "set_index (setitem d2 ''Clock'' clk) ''Clock'' =
     Inr ((setitem d2 ''Clock'' clk)
            \<lparr>df_columns := filter (\<lambda>(n, c). n \<noteq> ''Clock'') (df_columns (setitem d2 ''Clock'' clk)),
             df_index := clk, df_index_name := Some ''Clock''\<rparr>)"
  by (simp add: set_index_def getitem_def map_of_setitem_same)

lemma timeindex_in_place_with_dateparse:
  assumes "objects s df = Some d"
    and "getitem d ''Time'' = Inr col"
    and "load_name g ''dateparse'' = Inr (Unary f)"
    and "map_cells f col = Inr ct"
    and "map_cells to_datetime col = Inr clk"
  shows "timeindex_in g to_datetime s df True = (Inr df, put s df (indexed d col ct clk))"
  using assms
  by (simp add: timeindex_in_def Let_def series_apply_def set_index_clock
      index_steps [OF set_index_clock] indexed_def put_def)

lemma timeindex_copy_with_dateparse:
  assumes "objects s df = Some d" and "df < next_ref s"
    and "getitem d ''Time'' = Inr col"
    and "load_name g ''dateparse'' = Inr (Unary f)"
    and "map_cells f col = Inr ct"
    and "map_cells to_datetime col = Inr clk"
  shows "\<exists>r s'. timeindex_in g to_datetime s df False = (Inr r, s') \<and> r \<noteq> df
           \<and> objects s' df = Some d \<and> objects s' r = Some (indexed d col ct clk)"
  using assms
  by (simp add: timeindex_in_def Let_def series_apply_def set_index_clock
      index_steps [OF set_index_clock] indexed_def put_def alloc_def)


lemma timeindex_empty_table_with_dateparse:
  "timeindex_in ((''dateparse'', Unary f) # module_globals) to_datetime (store_of empty_table) 0 True
     = (Inr 0,
        put (store_of empty_table) 0
          \<lparr>df_columns = [(''Time'', []), (''data'', [])], df_index = [],
           df_index_name = Some ''Clock''\<rparr>)"
proof -
  have "timeindex_in ((''dateparse'', Unary f) # module_globals) to_datetime (store_of empty_table) 0 True
     = (Inr 0, put (store_of empty_table) 0 (indexed empty_table [] [] []))"
    by (rule timeindex_in_place_with_dateparse [where d = empty_table and f = f])
      (simp_all add: store_of_def getitem_def empty_table_def load_name_def)
  moreover have "indexed empty_table [] [] []
     = \<lparr>df_columns = [(''Time'', []), (''data'', [])], df_index = [],
        df_index_name = Some ''Clock''\<rparr>"
    by (simp add: indexed_def setitem_def empty_table_def)
  ultimately show ?thesis by simp
qed


end
